theory Spec2Isabelle
  imports Complex_Main "HOL-Library.AList"
begin

section \<open>Shared data model\<close>

text \<open>
  Menu data arrives from the server either as a plain name or as an object with a
  \<open>name\<close> field. An object is identified by its reference (a number here), so that
  HOL equality on \<open>js_item\<close> is JavaScript's \<open>===\<close>: strings compare by value,
  objects by reference. An object whose \<open>name\<close> is missing or empty carries \<open>''''\<close>.
  \<open>null\<close> is \<open>None\<close> of \<open>js_item option\<close>.
\<close>

datatype js_item = ItemStr string | ItemObj nat string

text \<open>JavaScript truthiness of an item value: \<open>null\<close> and the empty string are falsy.\<close>

fun truthy_item :: "js_item option \<Rightarrow> bool" where
  "truthy_item None = False"
| "truthy_item (Some (ItemStr s)) = (s \<noteq> [])"
| "truthy_item (Some (ItemObj r n)) = True"

text \<open>\<open>getSideName\<close> and \<open>getEntreeName\<close> (the same code in Plate.vue and ALaCarte.vue).\<close>

fun getSideName :: "js_item option \<Rightarrow> string" where
  "getSideName (Some (ItemStr s)) = s"
| "getSideName (Some (ItemObj r n)) = (if n \<noteq> [] then n else ''Unknown Side'')"
| "getSideName None = ''Unknown Side''"

fun getEntreeName :: "js_item option \<Rightarrow> string" where
  "getEntreeName (Some (ItemStr s)) = s"
| "getEntreeName (Some (ItemObj r n)) = (if n \<noteq> [] then n else ''Unknown Entree'')"
| "getEntreeName None = ''Unknown Entree''"

text \<open>
  A transaction entry is the five-slot array \<open>[baseItemID, food1, food2, food3, food4]\<close>
  every component builds. A slot holds a number, or \<open>null\<close> (\<open>None\<close>) when the id was
  never fetched; \<open>parseInt\<close> of such a slot is \<open>NaN\<close>, which is also \<open>None\<close>.
\<close>

record transaction_entry =
  te_itemid :: "int option"
  te_food1 :: "int option"
  te_food2 :: "int option"
  te_food3 :: "int option"
  te_food4 :: "int option"

text \<open>
  A cart line is the object a component emits with \<open>addToCart\<close>. A price is a
  JavaScript number (see the next section), or \<open>null\<close> when it was never fetched. The
  fields \<open>size\<close> and \<open>isPremium\<close> are absent (\<open>None\<close>) where the component does not
  set them.
\<close>

record cart_line =
  line_name :: string
  line_price :: "real option"
  line_size :: "string option"
  line_isPremium :: "bool option"
  line_transactionEntry :: transaction_entry

text \<open>
  The argument of the parent's \<open>addToCart\<close> handler is one item or an array of items;
  the two events a component can emit to the parent.
\<close>

datatype cart_payload = One cart_line | Many "cart_line list"

datatype emit = AddToCart cart_payload | AddToTransactionCart transaction_entry

text \<open>
  The server lookups the components use: \<open>itemid/<name>\<close> and \<open>foodid/<name>\<close>.
  \<open>None\<close> is a request that fails (the promise rejects).
\<close>

record api =
  api_itemid :: "string \<Rightarrow> int option"
  api_foodid :: "string \<Rightarrow> int option"

text \<open>\<open>Array.prototype.join\<close> on strings.\<close>

fun join :: "string \<Rightarrow> string list \<Rightarrow> string" where
  "join sep [] = []"
| "join sep [x] = x"
| "join sep (x # y # ys) = x @ sep @ join sep (y # ys)"

text \<open>
  \<open>String.prototype.includes\<close>: does \<open>n\<close> occur in \<open>s\<close> as a substring
  (\<open>startsWith\<close> tests one position).
\<close>

fun startsWith :: "string \<Rightarrow> string \<Rightarrow> bool" where
  "startsWith s [] = True"
| "startsWith [] (c # n) = False"
| "startsWith (a # s) (c # n) = (a = c \<and> startsWith s n)"

fun str_includes :: "string \<Rightarrow> string \<Rightarrow> bool" where
  "str_includes [] n = (n = [])"
| "str_includes (c # s) n = (startsWith (c # s) n \<or> str_includes s n)"

text \<open>
  \<open>Array.prototype.findIndex\<close>: the first index whose element satisfies the
  predicate; \<open>None\<close> is JavaScript's \<open>-1\<close>.
\<close>

fun findIndex :: "('a \<Rightarrow> bool) \<Rightarrow> 'a list \<Rightarrow> nat option" where
  "findIndex P [] = None"
| "findIndex P (x # xs) =
     (if P x then Some 0 else (case findIndex P xs of None \<Rightarrow> None | Some i \<Rightarrow> Some (Suc i)))"

section \<open>JavaScript numbers\<close>

text \<open>
  A JavaScript number is an IEEE 754 double. It is modelled by the real number it is, and
  an arithmetic operation gives the exact result rounded to the nearest double, a tie
  going to the even significand: \<open>round_half_even\<close> rounds to an integer that way,
  \<open>ulp_exponent x\<close> is the exponent of the spacing of the doubles around \<open>x\<close> (53
  significant bits, and never below the subnormal spacing \<open>2^-1074\<close>), and
  \<open>round_double\<close> rounds to a multiple of that spacing. A finite double is a fixed point
  of the rounding below \<open>2^1024\<close> in size. A decimal literal that takes part in no
  arithmetic is written as it is in the source and stands for the double nearest to it.
\<close>

definition round_half_even :: "real \<Rightarrow> int" where
  "round_half_even y =
     (if frac y < 1 / 2 then \<lfloor>y\<rfloor>
      else if frac y > 1 / 2 then \<lfloor>y\<rfloor> + 1
      else if even \<lfloor>y\<rfloor> then \<lfloor>y\<rfloor> else \<lfloor>y\<rfloor> + 1)"

definition ulp_exponent :: "real \<Rightarrow> int" where
  "ulp_exponent x = max (\<lfloor>log 2 \<bar>x\<bar>\<rfloor> - 52) (- 1074)"

definition round_double :: "real \<Rightarrow> real" where
  "round_double x =
     (if x = 0 then 0
      else of_int (round_half_even (x / 2 powi ulp_exponent x)) * 2 powi ulp_exponent x)"

definition is_double :: "real \<Rightarrow> bool" where
  "is_double x = (round_double x = x \<and> \<bar>x\<bar> < 2 ^ 1024)"

text \<open>The operators \<open>+\<close> and \<open>*\<close> on numbers.\<close>

definition js_add :: "real \<Rightarrow> real \<Rightarrow> real" where
  "js_add x y = round_double (x + y)"

definition js_mul :: "real \<Rightarrow> real \<Rightarrow> real" where
  "js_mul x y = round_double (x * y)"

section \<open>Plate.vue\<close>

record Plate_data =
  plate_price :: "real option"
  plate_selectedSide :: "js_item option"
  plate_selectedEntrees :: "js_item list"
  plate_premiumEntrees :: "string list"

text \<open>\<open>canAddToCart\<close>: \<open>this.selectedSide && this.selectedEntrees.length === 2\<close>.\<close>

definition plate_canAddToCart :: "Plate_data \<Rightarrow> bool" where
  "plate_canAddToCart s =
     (truthy_item (plate_selectedSide s) \<and> length (plate_selectedEntrees s) = 2)"


text \<open>\<open>selectEntree\<close>: remove when present, else append while fewer than two are selected.\<close>

definition selectEntree :: "js_item \<Rightarrow> Plate_data \<Rightarrow> Plate_data" where
  "selectEntree entree s =
     (if entree \<in> set (plate_selectedEntrees s)
      then s\<lparr>plate_selectedEntrees := filter (\<lambda>item. item \<noteq> entree) (plate_selectedEntrees s)\<rparr>
      else if length (plate_selectedEntrees s) < 2
      then s\<lparr>plate_selectedEntrees := plate_selectedEntrees s @ [entree]\<rparr>
      else s)"

definition plate_isPremium :: "Plate_data \<Rightarrow> js_item \<Rightarrow> bool" where
  "plate_isPremium s entree = (getEntreeName (Some entree) \<in> set (plate_premiumEntrees s))"

text \<open>
  The \<open>forEach\<close> that counts the premium entrees of the selection, one step of the loop
  per selected entree; and the price \<open>price += premiumCount * 1.5\<close>, a multiplication
  and an addition of numbers, in which a \<open>null\<close> base price counts as \<open>0\<close>.
\<close>

definition premiumCount :: "Plate_data \<Rightarrow> nat" where
  "premiumCount s =
     fold (\<lambda>entree count. if plate_isPremium s entree then count + 1 else count)
       (plate_selectedEntrees s) 0"

definition plate_linePrice :: "Plate_data \<Rightarrow> real" where
  "plate_linePrice s =
     js_add (case plate_price s of None \<Rightarrow> 0 | Some p \<Rightarrow> p)
       (js_mul (real (premiumCount s)) 1.5)"

text \<open>
  \<open>addToCart\<close> of Plate.vue. The result is the component's data afterwards, the events
  emitted to the parent in order, and the alerts shown. A failed \<open>itemid\<close> or \<open>foodid\<close>
  request ends in the matching \<open>catch\<close>: an alert, nothing emitted, nothing reset.
\<close>

definition plate_addToCart :: "api \<Rightarrow> Plate_data \<Rightarrow> Plate_data \<times> emit list \<times> string list" where
  "plate_addToCart a s =
     (if \<not> plate_canAddToCart s then (s, [], [])
      else case api_itemid a ''Plate'' of
        None \<Rightarrow> (s, [], [''Cannot fetch base item ID.''])
      | Some baseItemID \<Rightarrow>
          (let price = plate_linePrice s;
               sideName = getSideName (plate_selectedSide s);
               entreeNames = map (\<lambda>e. getEntreeName (Some e)) (plate_selectedEntrees s)
           in case (api_foodid a sideName, map (api_foodid a) entreeNames) of
                (Some sideFoodID, [Some entreeFoodID1, Some entreeFoodID2]) \<Rightarrow>
                  (let transactionEntry =
                         \<lparr>te_itemid = Some baseItemID, te_food1 = Some sideFoodID,
                          te_food2 = Some entreeFoodID1, te_food3 = Some entreeFoodID2,
                          te_food4 = Some 0\<rparr>;
                       item =
                         \<lparr>line_name = ''Plate ('' @ sideName @ '' + '' @ join '', '' entreeNames @ '')'',
                          line_price = Some price,
                          line_size = None,
                          line_isPremium = Some (premiumCount s > 0),
                          line_transactionEntry = transactionEntry\<rparr>
                   in (s\<lparr>plate_selectedSide := None, plate_selectedEntrees := []\<rparr>,
                       [AddToCart (One item), AddToTransactionCart transactionEntry], []))
              | _ \<Rightarrow> (s, [], [''Cannot add to transaction cart.''])))"





section \<open>ALaCarte.vue\<close>

datatype item_type = SideT | EntreeT

text \<open>An element of \<open>sizeOptions.side\<close> or \<open>sizeOptions.entree\<close>.\<close>

record size_option =
  size_name :: string
  size_price :: "real option"
  size_baseItemID :: "int option"

record ALaCarte_data =
  alc_selectedSides :: "cart_line list"
  alc_selectedEntrees :: "cart_line list"
  alc_showSizeModal :: bool
  alc_currentItem :: "js_item option"
  alc_currentItemType :: "item_type option"
  alc_premiumEntrees :: "string list"

text \<open>The \<open>premiumPrices\<close> table; a key it does not hold reads \<open>undefined\<close>.\<close>

definition premiumPrices :: "string \<Rightarrow> real option" where
  "premiumPrices n =
     (if n = ''Small'' then Some 6.7
      else if n = ''Medium'' then Some 11.5
      else if n = ''Large'' then Some 15.7
      else None)"

definition alc_isPremium :: "ALaCarte_data \<Rightarrow> js_item option \<Rightarrow> bool" where
  "alc_isPremium s entree = (getEntreeName entree \<in> set (alc_premiumEntrees s))"

definition alc_canAddToCart :: "ALaCarte_data \<Rightarrow> bool" where
  "alc_canAddToCart s = (length (alc_selectedSides s) > 0 \<or> length (alc_selectedEntrees s) > 0)"

text \<open>\<open>toggleSides\<close> and \<open>toggleEntrees\<close> open the size modal for the item; nothing else.\<close>

definition toggleSides :: "js_item \<Rightarrow> ALaCarte_data \<Rightarrow> ALaCarte_data" where
  "toggleSides side s =
     s\<lparr>alc_currentItem := Some side, alc_currentItemType := Some SideT, alc_showSizeModal := True\<rparr>"

definition toggleEntrees :: "js_item \<Rightarrow> ALaCarte_data \<Rightarrow> ALaCarte_data" where
  "toggleEntrees entree s =
     s\<lparr>alc_currentItem := Some entree, alc_currentItemType := Some EntreeT, alc_showSizeModal := True\<rparr>"

definition cancelSizeSelection :: "ALaCarte_data \<Rightarrow> ALaCarte_data" where
  "cancelSizeSelection s = s\<lparr>alc_showSizeModal := False, alc_currentItem := None\<rparr>"

definition selectedList :: "item_type \<Rightarrow> ALaCarte_data \<Rightarrow> cart_line list" where
  "selectedList ty s = (case ty of SideT \<Rightarrow> alc_selectedSides s | EntreeT \<Rightarrow> alc_selectedEntrees s)"


text \<open>\<open>getFoodID(item)\<close>: the name is chosen by \<open>this.currentItemType\<close>.\<close>

definition getFoodID :: "api \<Rightarrow> ALaCarte_data \<Rightarrow> js_item option \<Rightarrow> int option" where
  "getFoodID a s item =
     api_foodid a (if alc_currentItemType s = Some SideT then getSideName item
                   else getEntreeName item)"

text \<open>The name \<open>selectSize\<close> looks up and prints: by the \<open>type\<close> argument.\<close>

definition currentName :: "item_type \<Rightarrow> ALaCarte_data \<Rightarrow> string" where
  "currentName ty s =
     (case ty of SideT \<Rightarrow> getSideName (alc_currentItem s)
               | EntreeT \<Rightarrow> getEntreeName (alc_currentItem s))"

text \<open>The label of an entry: \<open>Side: <name> (<size>)\<close> or \<open>Entree: <name> (<size>)\<close>.\<close>

definition entryLabel :: "item_type \<Rightarrow> string \<Rightarrow> string \<Rightarrow> string" where
  "entryLabel ty n sz =
     (case ty of SideT \<Rightarrow> ''Side'' | EntreeT \<Rightarrow> ''Entree'') @ '': '' @ n @ '' ('' @ sz @ '')''"

text \<open>The price \<open>selectSize\<close> gives the entry, from the component's data as it then is.\<close>

definition sizePrice :: "size_option \<Rightarrow> item_type \<Rightarrow> ALaCarte_data \<Rightarrow> real option" where
  "sizePrice sz ty s =
     (if ty = EntreeT \<and> alc_isPremium s (alc_currentItem s) then premiumPrices (size_name sz)
      else size_price sz)"

text \<open>
  The object \<open>selectSize\<close> stores once the food id has arrived: its label, price and
  premium flag are read from \<open>this.currentItem\<close> at that moment.
\<close>

definition sizedEntry :: "size_option \<Rightarrow> item_type \<Rightarrow> int \<Rightarrow> ALaCarte_data \<Rightarrow> cart_line" where
  "sizedEntry sz ty foodID s =
     \<lparr>line_name = entryLabel ty (currentName ty s) (size_name sz),
      line_price = sizePrice sz ty s,
      line_size = Some (size_name sz),
      line_isPremium = Some (alc_isPremium s (alc_currentItem s)),
      line_transactionEntry =
        \<lparr>te_itemid = size_baseItemID sz, te_food1 = Some foodID, te_food2 = Some 0,
         te_food3 = Some 0, te_food4 = Some 0\<rparr>\<rparr>"

text \<open>
  \<open>selectSize(size, type)\<close> is asynchronous, and nothing keeps a second call from
  starting while one is waiting. A call runs in two parts. Before the \<open>await\<close> it picks
  the list by \<open>type\<close>, searches the index of an existing entry by substring on the
  labels, and sends the food id request for \<open>this.currentItem\<close>; what it keeps across
  the \<open>await\<close> is a \<open>pending_call\<close>. When the response arrives the call goes on:
  it builds the entry from the component's data as it is by then, overwrites the entry
  at the index found before or pushes the new entry, closes the modal and clears
  \<open>currentItem\<close> and \<open>currentItemType\<close>. A rejected request ends in the \<open>catch\<close>,
  which only logs. (The list kept across the \<open>await\<close> is the array the component still
  holds, since only \<open>addToCart\<close> replaces the arrays; the fields of the size object
  change only while the page loads.)
\<close>

record pending_call =
  pc_size :: size_option
  pc_type :: item_type
  pc_existingItemIndex :: "nat option"
  pc_foodID :: "int option"

definition selectSize_begin :: "api \<Rightarrow> size_option \<Rightarrow> item_type \<Rightarrow> ALaCarte_data \<Rightarrow> pending_call" where
  "selectSize_begin a sz ty s =
     \<lparr>pc_size = sz, pc_type = ty,
      pc_existingItemIndex =
        findIndex (\<lambda>item. str_includes (line_name item) (currentName ty s)) (selectedList ty s),
      pc_foodID = getFoodID a s (alc_currentItem s)\<rparr>"

definition selectSize_resume :: "pending_call \<Rightarrow> ALaCarte_data \<Rightarrow> ALaCarte_data" where
  "selectSize_resume c s =
     (case pc_foodID c of
        None \<Rightarrow> s
      | Some foodID \<Rightarrow>
          (let entry = sizedEntry (pc_size c) (pc_type c) foodID s;
               updated = (case pc_existingItemIndex c of
                            Some i \<Rightarrow> (selectedList (pc_type c) s)[i := entry]
                          | None \<Rightarrow> selectedList (pc_type c) s @ [entry]);
               s' = (case pc_type c of SideT \<Rightarrow> s\<lparr>alc_selectedSides := updated\<rparr>
                                     | EntreeT \<Rightarrow> s\<lparr>alc_selectedEntrees := updated\<rparr>)
           in s'\<lparr>alc_showSizeModal := False, alc_currentItem := None,
                 alc_currentItemType := None\<rparr>))"

text \<open>
  \<open>addToCart\<close> of ALaCarte.vue: every selected entry is emitted on its own, each
  followed by its transaction entry, and the selections are cleared.
\<close>

definition alc_addToCart :: "ALaCarte_data \<Rightarrow> ALaCarte_data \<times> emit list" where
  "alc_addToCart s =
     (if alc_canAddToCart s
      then (s\<lparr>alc_selectedSides := [], alc_selectedEntrees := []\<rparr>,
            concat (map (\<lambda>item. [AddToCart (One item),
                                  AddToTransactionCart (line_transactionEntry item)])
                        (alc_selectedSides s @ alc_selectedEntrees s)))
      else (s, []))"

text \<open>
  What happens to the component between two \<open>addToCart\<close>s: a click on an item's button
  (\<open>toggleSides\<close> or \<open>toggleEntrees\<close>), a call of \<open>selectSize\<close> from a size button of
  the open modal (the template passes \<open>'side'\<close> when \<open>currentItemType\<close> is \<open>'side'\<close> and
  \<open>'entree'\<close> otherwise), and the arrival of the response to one of the pending calls.
  The state is the component's data and the calls waiting at their \<open>await\<close>.
\<close>

datatype alc_event = Toggle item_type js_item | Select size_option | Respond nat

definition nameOf :: "item_type \<Rightarrow> js_item \<Rightarrow> string" where
  "nameOf ty x = (case ty of SideT \<Rightarrow> getSideName (Some x) | EntreeT \<Rightarrow> getEntreeName (Some x))"

definition toggle :: "item_type \<Rightarrow> js_item \<Rightarrow> ALaCarte_data \<Rightarrow> ALaCarte_data" where
  "toggle ty x s = (case ty of SideT \<Rightarrow> toggleSides x s | EntreeT \<Rightarrow> toggleEntrees x s)"

definition shownType :: "ALaCarte_data \<Rightarrow> item_type" where
  "shownType s = (if alc_currentItemType s = Some SideT then SideT else EntreeT)"

fun alc_step ::
  "api \<Rightarrow> alc_event \<Rightarrow> ALaCarte_data \<times> pending_call list
     \<Rightarrow> ALaCarte_data \<times> pending_call list" where
  "alc_step a (Toggle ty x) (s, ps) = (toggle ty x s, ps)"
| "alc_step a (Select sz) (s, ps) =
     (if alc_showSizeModal s then (s, ps @ [selectSize_begin a sz (shownType s) s]) else (s, ps))"
| "alc_step a (Respond i) (s, ps) =
     (if i < length ps then (selectSize_resume (ps ! i) s, take i ps @ drop (Suc i) ps)
      else (s, ps))"

fun alc_run ::
  "api \<Rightarrow> alc_event list \<Rightarrow> ALaCarte_data \<times> pending_call list
     \<Rightarrow> ALaCarte_data \<times> pending_call list" where
  "alc_run a [] st = st"
| "alc_run a (ev # evs) st = alc_run a evs (alc_step a ev st)"

definition alc_initial :: "string list \<Rightarrow> ALaCarte_data" where
  "alc_initial prem =
     \<lparr>alc_selectedSides = [], alc_selectedEntrees = [], alc_showSizeModal = False,
      alc_currentItem = None, alc_currentItemType = None, alc_premiumEntrees = prem\<rparr>"

text \<open>
  An index found by a pending call lies inside the list of the call's type. (No event
  shortens a list, so the assignment at that index overwrites an entry.)
\<close>

definition indices_in_range :: "ALaCarte_data \<times> pending_call list \<Rightarrow> bool" where
  "indices_in_range st =
     list_all (\<lambda>c. case pc_existingItemIndex c of
                      None \<Rightarrow> True
                    | Some i \<Rightarrow> i < length (selectedList (pc_type c) (fst st))) (snd st)"

text \<open>
  A pick with the mouse: the item's button, one click on a size, and the response. A
  pick with the keyboard: the size buttons bind \<open>click\<close>, \<open>keydown.enter\<close> and
  \<open>keydown.space\<close> to \<open>selectSize\<close>, and a key press on the focused button raises the
  key event and the button's click, so two calls start before either response arrives.
\<close>

definition mousePick :: "item_type \<Rightarrow> js_item \<Rightarrow> size_option \<Rightarrow> alc_event list" where
  "mousePick ty x sz = [Toggle ty x, Select sz, Respond 0]"

definition keyPick :: "item_type \<Rightarrow> js_item \<Rightarrow> size_option \<Rightarrow> alc_event list" where
  "keyPick ty x sz = [Toggle ty x, Select sz, Select sz, Respond 0, Respond 0]"

text \<open>The data after a call that starts and goes on with nothing in between.\<close>

definition pickNow :: "api \<Rightarrow> item_type \<Rightarrow> js_item \<Rightarrow> size_option \<Rightarrow> ALaCarte_data \<Rightarrow> ALaCarte_data" where
  "pickNow a ty x sz s =
     selectSize_resume (selectSize_begin a sz ty (toggle ty x s)) (toggle ty x s)"

text \<open>
  The selection as the specification words it, for comparison with the lists the code
  keeps: the entries of one type filed under their item names, where a pick for a name
  already present overwrites that name's entry in place and a pick for a new name is
  appended (\<open>AList.update\<close> does exactly this). The entry filed is the one the code
  builds at that pick; a pick whose food id request fails files nothing.
\<close>

type_synonym pick = "item_type \<times> js_item \<times> size_option"

fun fileUnder ::
  "api \<Rightarrow> item_type \<Rightarrow> pick \<Rightarrow> ALaCarte_data \<Rightarrow> (string \<times> cart_line) list
     \<Rightarrow> (string \<times> cart_line) list" where
  "fileUnder a ty (ty', x, sz) s K =
     (if ty' = ty
      then (case api_foodid a (nameOf ty x) of
              None \<Rightarrow> K
            | Some foodID \<Rightarrow>
                AList.update (nameOf ty x) (sizedEntry sz ty foodID (toggle ty x s)) K)
      else K)"

fun pickAll :: "api \<Rightarrow> pick list \<Rightarrow> ALaCarte_data \<Rightarrow> ALaCarte_data" where
  "pickAll a [] s = s"
| "pickAll a ((ty, x, sz) # ps) s = pickAll a ps (pickNow a ty x sz s)"

fun keyedSelection ::
  "api \<Rightarrow> item_type \<Rightarrow> pick list \<Rightarrow> ALaCarte_data \<Rightarrow> (string \<times> cart_line) list
     \<Rightarrow> (string \<times> cart_line) list" where
  "keyedSelection a ty [] s K = K"
| "keyedSelection a ty ((ty', x, sz) # ps) s K =
     keyedSelection a ty ps (pickNow a ty' x sz s) (fileUnder a ty (ty', x, sz) s K)"

text \<open>
  The label, item name and type of a pick; and the condition on the names of a sequence
  of picks under which the substring search of \<open>selectSize\<close> finds an entry by its item:
  among picks of one type, an item's name occurs in a label only when the label is that
  item's own.
\<close>

fun pick_label :: "pick \<Rightarrow> string" where
  "pick_label (ty, x, sz) = entryLabel ty (nameOf ty x) (size_name sz)"

fun pick_name :: "pick \<Rightarrow> string" where
  "pick_name (ty, x, sz) = nameOf ty x"

fun pick_type :: "pick \<Rightarrow> item_type" where
  "pick_type (ty, x, sz) = ty"

definition separated :: "pick list \<Rightarrow> bool" where
  "separated ps =
     list_all (\<lambda>p1. list_all (\<lambda>p2.
        pick_type p1 = pick_type p2 \<and> str_includes (pick_label p1) (pick_name p2)
          \<longrightarrow> pick_name p1 = pick_name p2) ps) ps"

fun mousePicks :: "pick list \<Rightarrow> alc_event list" where
  "mousePicks [] = []"
| "mousePicks ((ty, x, sz) # ps) = mousePick ty x sz @ mousePicks ps"

section \<open>Appetizer.vue\<close>

record Appetizer_data =
  apt_selectedAppetizers :: "js_item list"
  apt_price :: "real option"

fun getAppetizerName :: "js_item \<Rightarrow> string" where
  "getAppetizerName (ItemStr s) = s"
| "getAppetizerName (ItemObj r n) = (if n \<noteq> [] then n else ''Unknown Appetizer'')"

definition apt_canAddToCart :: "Appetizer_data \<Rightarrow> bool" where
  "apt_canAddToCart s = (length (apt_selectedAppetizers s) > 0)"

text \<open>\<open>toggleAppetizer\<close>: splice out the first occurrence, or push.\<close>

definition toggleAppetizer :: "js_item \<Rightarrow> Appetizer_data \<Rightarrow> Appetizer_data" where
  "toggleAppetizer appetizer s =
     (if appetizer \<in> set (apt_selectedAppetizers s)
      then s\<lparr>apt_selectedAppetizers := remove1 appetizer (apt_selectedAppetizers s)\<rparr>
      else s\<lparr>apt_selectedAppetizers := apt_selectedAppetizers s @ [appetizer]\<rparr>)"

text \<open>\<open>Promise.all\<close> over the food id requests: all the ids, or a rejection.\<close>

fun allSome :: "'a option list \<Rightarrow> 'a list option" where
  "allSome [] = Some []"
| "allSome (None # xs) = None"
| "allSome (Some x # xs) = (case allSome xs of None \<Rightarrow> None | Some ys \<Rightarrow> Some (x # ys))"

definition appetizerEntry :: "int \<Rightarrow> int \<Rightarrow> transaction_entry" where
  "appetizerEntry baseItemID appetizerID =
     \<lparr>te_itemid = Some baseItemID, te_food1 = Some appetizerID, te_food2 = Some 0,
      te_food3 = Some 0, te_food4 = Some 0\<rparr>"

definition appetizerLine :: "Appetizer_data \<Rightarrow> js_item \<Rightarrow> transaction_entry \<Rightarrow> cart_line" where
  "appetizerLine s appetizer e =
     \<lparr>line_name = ''Appetizer: '' @ getAppetizerName appetizer,
      line_price = apt_price s,
      line_size = None,
      line_isPremium = None,
      line_transactionEntry = e\<rparr>"

text \<open>
  \<open>addToCart\<close> of Appetizer.vue: one array of lines goes to \<open>addToCart\<close>, and
  \<open>transactionEntries[0]\<close> alone goes to \<open>addToTransactionCart\<close>. Behind the
  \<open>canAddToCart\<close> guard the array of entries is never empty.
\<close>

definition apt_addToCart :: "api \<Rightarrow> Appetizer_data \<Rightarrow> Appetizer_data \<times> emit list \<times> string list" where
  "apt_addToCart a s =
     (if \<not> apt_canAddToCart s then (s, [], [])
      else case api_itemid a ''Appetizer'' of
        None \<Rightarrow> (s, [], [''Cannot fetch base item ID.''])
      | Some baseItemID \<Rightarrow>
          (case allSome (map (\<lambda>appetizer. api_foodid a (getAppetizerName appetizer))
                             (apt_selectedAppetizers s)) of
             None \<Rightarrow> (s, [], [''Cannot add to transaction cart.''])
           | Some appetizerIDs \<Rightarrow>
               (let transactionEntries = map (appetizerEntry baseItemID) appetizerIDs;
                    itemsToAdd = map (\<lambda>(appetizer, e). appetizerLine s appetizer e)
                                     (zip (apt_selectedAppetizers s) transactionEntries)
                in case transactionEntries of
                     [] \<Rightarrow> (s, [], [])
                   | first # others \<Rightarrow>
                       (s\<lparr>apt_selectedAppetizers := []\<rparr>,
                        [AddToCart (Many itemsToAdd), AddToTransactionCart first], []))))"

section \<open>App.vue: the cart\<close>

text \<open>
  The component data the order flow touches. \<open>employeeID\<close> holds what
  \<open>parseInt(this.employeeID, 10)\<close> gives (\<open>None\<close> for \<open>NaN\<close>), \<open>cartTotal\<close> what
  \<open>parseFloat(this.cartTotal)\<close> gives; \<open>readyTime\<close> is the hour and minute shown, or
  \<open>None\<close> for the empty string.
\<close>

record App_data =
  cartItems :: "cart_line list"
  transactionCart :: "transaction_entry list"
  cartTotal :: real
  transactionId :: "int option"
  readyTime :: "(int \<times> int) option"
  isCheckoutVisible :: bool
  showUserInfo :: bool
  isOrderComplete :: bool
  selectedPayment :: "string option"
  employeeID :: "int option"

text \<open>
  \<open>xs.splice(index, 1)\<close>: a negative start counts from the end (not below \<open>0\<close>), a
  start past the end is the end; one element is removed when there is one.
\<close>

definition splice1 :: "int \<Rightarrow> 'a list \<Rightarrow> 'a list" where
  "splice1 index xs =
     (let n = int (length xs);
          start = (if index < 0 then max (n + index) 0 else min index n)
      in take (nat start) xs @ drop (nat start + 1) xs)"

definition removeFromCart :: "int \<Rightarrow> App_data \<Rightarrow> App_data" where
  "removeFromCart index s =
     s\<lparr>cartItems := splice1 index (cartItems s),
       transactionCart := splice1 index (transactionCart s)\<rparr>"

definition clearOrder :: "App_data \<Rightarrow> App_data" where
  "clearOrder s = s\<lparr>cartItems := [], transactionCart := []\<rparr>"

text \<open>\<open>addToCart(item)\<close>: an array is spread into the cart, anything else is pushed.\<close>

fun addToCart :: "cart_payload \<Rightarrow> App_data \<Rightarrow> App_data" where
  "addToCart (Many items) s = s\<lparr>cartItems := cartItems s @ items\<rparr>"
| "addToCart (One item) s = s\<lparr>cartItems := cartItems s @ [item]\<rparr>"

definition addToTransactionCart :: "transaction_entry \<Rightarrow> App_data \<Rightarrow> App_data" where
  "addToTransactionCart entry s = s\<lparr>transactionCart := transactionCart s @ [entry]\<rparr>"

definition updatePaymentMethod :: "string option \<Rightarrow> App_data \<Rightarrow> App_data" where
  "updatePaymentMethod paymentMethod s = s\<lparr>selectedPayment := paymentMethod\<rparr>"

text \<open>The parent's handlers for the events a menu component emits, run in order.\<close>

fun handle :: "emit \<Rightarrow> App_data \<Rightarrow> App_data" where
  "handle (AddToCart item) s = addToCart item s"
| "handle (AddToTransactionCart entry) s = addToTransactionCart entry s"

fun handleAll :: "emit list \<Rightarrow> App_data \<Rightarrow> App_data" where
  "handleAll [] s = s"
| "handleAll (e # es) s = handleAll es (handle e s)"

text \<open>The operations on the cart a user can trigger, as the claims list them.\<close>

datatype cart_op =
    PlateAdd api Plate_data
  | ALaCarteAdd ALaCarte_data
  | AppetizerAdd api Appetizer_data
  | RemoveAt int
  | Clear

fun cart_step :: "cart_op \<Rightarrow> App_data \<Rightarrow> App_data" where
  "cart_step (PlateAdd a p) s = handleAll (fst (snd (plate_addToCart a p))) s"
| "cart_step (ALaCarteAdd c) s = handleAll (snd (alc_addToCart c)) s"
| "cart_step (AppetizerAdd a p) s = handleAll (fst (snd (apt_addToCart a p))) s"
| "cart_step (RemoveAt i) s = removeFromCart i s"
| "cart_step Clear s = clearOrder s"

fun cart_run :: "cart_op list \<Rightarrow> App_data \<Rightarrow> App_data" where
  "cart_run [] s = s"
| "cart_run (c # cs) s = cart_run cs (cart_step c s)"

text \<open>
  Index alignment of the two sequences: as many entries as lines, and the entry at
  index \<open>i\<close> is the one the line at index \<open>i\<close> was created with.
\<close>

definition aligned :: "App_data \<Rightarrow> bool" where
  "aligned s = (transactionCart s = map line_transactionEntry (cartItems s))"

text \<open>
  An operation that sends the cart as many entries as lines: every one but the
  appetizer add with two or more appetizers selected.
\<close>

fun batch_free :: "cart_op \<Rightarrow> bool" where
  "batch_free (AppetizerAdd a p) = (length (apt_selectedAppetizers p) \<le> 1)"
| "batch_free c = True"

section \<open>App.vue: the ready time\<close>

text \<open>
  \<open>Math.floor(Math.random() * 6) + 5\<close>. \<open>r\<close> is the value \<open>Math.random()\<close>
  returned, a double in \<open>[0, 1)\<close>, hence at most \<open>1 - 2^-53\<close>. The product is a
  double too: the exact product times \<open>1 + d\<close>, where \<open>d\<close> is the relative rounding
  error of the multiplication, at most \<open>2^-53\<close> in size. \<open>Math.floor\<close> and the
  addition of \<open>5\<close> are exact.
\<close>

definition randomMinutes :: "real \<Rightarrow> real \<Rightarrow> int" where
  "randomMinutes r d = \<lfloor>r * 6 * (1 + d)\<rfloor> + 5"

text \<open>
  A \<open>Date\<close> is its wall-clock time in milliseconds. \<open>setMinutes(getMinutes() + k)\<close>
  moves it \<open>k\<close> minutes on (no change of daylight saving time within those minutes);
  \<open>toLocaleTimeString\<close> with two-digit hour and minute shows the hour and minute of
  the day.
\<close>

definition addMinutes :: "int \<Rightarrow> int \<Rightarrow> int" where
  "addMinutes now k = now + 60000 * k"

definition hourMinute :: "int \<Rightarrow> int \<times> int" where
  "hourMinute t = ((t div 3600000) mod 24, (t div 60000) mod 60)"

definition readyDate :: "int \<Rightarrow> real \<Rightarrow> real \<Rightarrow> int" where
  "readyDate now r d = addMinutes now (randomMinutes r d)"

definition calculateReadyTime :: "int \<Rightarrow> real \<Rightarrow> real \<Rightarrow> int \<times> int" where
  "calculateReadyTime now r d = hourMinute (readyDate now r d)"

section \<open>App.vue: completeOrder\<close>

text \<open>The requests \<open>completeOrder\<close> sends, with their parameters.\<close>

datatype api_call =
    GetLatestID
  | PostTransaction int "int option" real string string
  | PostTransactionItems "int option" "int option" "int option" "int option" "int option" "int option"
  | SubtractItemTypes "int option"
  | SubtractFood "int option"

text \<open>
  What the outside world answers during one run: the latest transaction id (\<open>None\<close>
  when the request fails), the time stamp of \<open>new Date().toISOString()\<close>, whether the
  \<open>transaction\<close> POST succeeds, whether the \<open>transactionitems\<close> POST of line \<open>i\<close>
  succeeds, and the clock, random draw and rounding error when line \<open>i\<close> computes the
  ready time.
\<close>

record order_env =
  env_latestID :: "int option"
  env_isoDate :: string
  env_postTransaction :: bool
  env_postTransactionItems :: "nat \<Rightarrow> bool"
  env_clock :: "nat \<Rightarrow> int \<times> real \<times> real"

datatype order_error = PaymentNotSelected | RequestFailed

text \<open>
  The outcome of a run: the data afterwards, the requests sent in order, the error the
  \<open>try\<close>/\<open>catch\<close> caught (it raises the alert), and the messages the promise
  \<open>catch\<close>es logged.
\<close>

record order_result =
  res_state :: App_data
  res_calls :: "api_call list"
  res_caught :: "order_error option"
  res_logged :: "string list"

text \<open>\<open>!this.selectedPayment\<close> is false for a non-empty string only.\<close>

fun truthy_str :: "string option \<Rightarrow> bool" where
  "truthy_str None = False"
| "truthy_str (Some p) = (p \<noteq> [])"

text \<open>The four tests that collect \<open>foodids\<close>: each slot whose \<open>parseInt\<close> is not \<open>0\<close>.\<close>

definition foodids :: "transaction_entry \<Rightarrow> int option list" where
  "foodids e = filter (\<lambda>f. f \<noteq> Some 0) [te_food1 e, te_food2 e, te_food3 e, te_food4 e]"

text \<open>The two requests the loop body sends for one line before it goes on.\<close>

definition lineRequests :: "int \<Rightarrow> transaction_entry \<Rightarrow> api_call list" where
  "lineRequests tid e =
     [SubtractItemTypes (te_itemid e),
      PostTransactionItems (Some tid) (te_itemid e) (te_food1 e) (te_food2 e) (te_food3 e)
        (te_food4 e)]"

text \<open>
  The \<open>then\<close> chain behind each line's \<open>transactionitems\<close> POST, taken in the order of
  the lines: on success one \<open>inventory/subtract\<close> per collected food id, then the ready
  time and the completion flags; on failure the \<open>catch\<close> logs.
\<close>

fun lineCallbacks ::
  "order_env \<Rightarrow> nat \<Rightarrow> transaction_entry list \<Rightarrow> App_data \<times> api_call list \<times> string list
     \<Rightarrow> App_data \<times> api_call list \<times> string list" where
  "lineCallbacks env i [] acc = acc"
| "lineCallbacks env i (e # es) (s, calls, logged) =
     (if env_postTransactionItems env i
      then lineCallbacks env (Suc i) es
             (s\<lparr>readyTime := Some (case env_clock env i of (now, r, d) \<Rightarrow> calculateReadyTime now r d),
                isOrderComplete := True, showUserInfo := False\<rparr>,
              calls @ map SubtractFood (foodids e), logged)
      else lineCallbacks env (Suc i) es
             (s, calls, logged @ [''Error adding to transactionitems table'']))"

text \<open>
  \<open>completeOrder\<close>. The latest id is read and stored first; then the payment method is
  tested; then the transaction is posted, and behind its success the loop over
  \<open>transactionCart\<close> runs.
\<close>

definition completeOrder :: "order_env \<Rightarrow> App_data \<Rightarrow> order_result" where
  "completeOrder env s =
     (case env_latestID env of
        None \<Rightarrow>
          \<lparr>res_state = s, res_calls = [GetLatestID], res_caught = Some RequestFailed,
           res_logged = []\<rparr>
      | Some latest \<Rightarrow>
          (let s1 = s\<lparr>transactionId := Some latest\<rparr>
           in if \<not> truthy_str (selectedPayment s1)
              then \<lparr>res_state = s1, res_calls = [GetLatestID],
                    res_caught = Some PaymentNotSelected, res_logged = []\<rparr>
              else
                (let post = PostTransaction latest (employeeID s1) (cartTotal s1) (env_isoDate env)
                              (case selectedPayment s1 of Some p \<Rightarrow> p | None \<Rightarrow> ''null'')
                 in if \<not> env_postTransaction env
                    then \<lparr>res_state = s1, res_calls = [GetLatestID, post], res_caught = None,
                          res_logged = [''Error adding to transaction table'']\<rparr>
                    else
                      (case lineCallbacks env 0 (transactionCart s1) (s1, [], []) of
                         (s2, later, logged) \<Rightarrow>
                           \<lparr>res_state = s2,
                            res_calls = [GetLatestID, post]
                              @ concat (map (lineRequests latest) (transactionCart s1)) @ later,
                            res_caught = None, res_logged = logged\<rparr>))))"

text \<open>The requests that write: everything but the read of the latest id.\<close>

fun persists :: "api_call \<Rightarrow> bool" where
  "persists GetLatestID = False"
| "persists c = True"

fun isItemTypeDecrement :: "api_call \<Rightarrow> bool" where
  "isItemTypeDecrement (SubtractItemTypes i) = True"
| "isItemTypeDecrement c = False"

fun isFoodDecrement :: "api_call \<Rightarrow> bool" where
  "isFoodDecrement (SubtractFood f) = True"
| "isFoodDecrement c = False"

section \<open>Concrete inputs\<close>

definition api_ex :: api where
  "api_ex =
     \<lparr>api_itemid = (\<lambda>n. if n = ''Plate'' then Some 2 else if n = ''Appetizer'' then Some 4 else None),
      api_foodid = (\<lambda>n. Some (int (length n)))\<rparr>"

text \<open>A plate with its side and two entrees selected, one of them premium.\<close>

definition plate_ex :: Plate_data where
  "plate_ex =
     \<lparr>plate_price = Some 9.75,
      plate_selectedSide = Some (ItemStr ''Chow Mein''),
      plate_selectedEntrees = [ItemStr ''Orange Chicken'', ItemStr ''Honey Walnut Shrimp''],
      plate_premiumEntrees = [''Honey Walnut Shrimp'', ''Black Pepper Sirloin Steak'']\<rparr>"

definition plate_ex_entry :: transaction_entry where
  "plate_ex_entry =
     \<lparr>te_itemid = Some 2, te_food1 = Some 9, te_food2 = Some 14, te_food3 = Some 19,
      te_food4 = Some 0\<rparr>"

definition plate_ex_line :: cart_line where
  "plate_ex_line =
     \<lparr>line_name = ''Plate (Chow Mein + Orange Chicken, Honey Walnut Shrimp)'',
      line_price = Some 11.25,
      line_size = None,
      line_isPremium = Some True,
      line_transactionEntry = plate_ex_entry\<rparr>"


definition medium_side :: size_option where
  "medium_side = \<lparr>size_name = ''Medium'', size_price = Some 4.4, size_baseItemID = Some 7\<rparr>"

definition large_side :: size_option where
  "large_side = \<lparr>size_name = ''Large'', size_price = Some 5.4, size_baseItemID = Some 8\<rparr>"

definition large_entree :: size_option where
  "large_entree = \<lparr>size_name = ''Large'', size_price = Some 11.2, size_baseItemID = Some 11\<rparr>"

text \<open>
  A plate at the base price \<open>5.03\<close> (the double nearest to it) with two premium entrees,
  the line it emits, and a plate with no premium entree.
\<close>

definition price_5_03 :: real where
  "price_5_03 = 5663276531418399 / 2 ^ 50"

definition plate_premium :: Plate_data where
  "plate_premium =
     \<lparr>plate_price = Some price_5_03,
      plate_selectedSide = Some (ItemStr ''Chow Mein''),
      plate_selectedEntrees =
        [ItemStr ''Honey Walnut Shrimp'', ItemStr ''Black Pepper Sirloin Steak''],
      plate_premiumEntrees = [''Honey Walnut Shrimp'', ''Black Pepper Sirloin Steak'']\<rparr>"

definition plate_premium_line :: cart_line where
  "plate_premium_line =
     \<lparr>line_name = ''Plate (Chow Mein + Honey Walnut Shrimp, Black Pepper Sirloin Steak)'',
      line_price = Some (4520488125973136 / 2 ^ 49),
      line_size = None,
      line_isPremium = Some True,
      line_transactionEntry =
        \<lparr>te_itemid = Some 2, te_food1 = Some 9, te_food2 = Some 19, te_food3 = Some 26,
         te_food4 = Some 0\<rparr>\<rparr>"

definition plate_plain :: Plate_data where
  "plate_plain =
     \<lparr>plate_price = Some 9.75,
      plate_selectedSide = Some (ItemStr ''Fried Rice''),
      plate_selectedEntrees = [ItemStr ''Orange Chicken'', ItemStr ''Beijing Beef''],
      plate_premiumEntrees = [''Honey Walnut Shrimp'', ''Black Pepper Sirloin Steak'']\<rparr>"

definition plate_plain_line :: cart_line where
  "plate_plain_line =
     \<lparr>line_name = ''Plate (Fried Rice + Orange Chicken, Beijing Beef)'',
      line_price = Some 9.75,
      line_size = None,
      line_isPremium = Some False,
      line_transactionEntry =
        \<lparr>te_itemid = Some 2, te_food1 = Some 10, te_food2 = Some 14, te_food3 = Some 12,
         te_food4 = Some 0\<rparr>\<rparr>"

text \<open>Picks among which one side is named like a size, and picks with ordinary names.\<close>

definition clash_picks :: "pick list" where
  "clash_picks =
     [(SideT, ItemStr ''Chow Mein'', large_side),
      (SideT, ItemStr ''Medium'', large_side),
      (SideT, ItemStr ''Chow Mein'', medium_side),
      (SideT, ItemStr ''Medium'', large_side)]"

definition plain_picks :: "pick list" where
  "plain_picks =
     [(SideT, ItemStr ''Chow Mein'', large_side),
      (SideT, ItemStr ''Fried Rice'', medium_side),
      (SideT, ItemStr ''Chow Mein'', medium_side)]"

definition app_empty :: App_data where
  "app_empty =
     \<lparr>cartItems = [], transactionCart = [], cartTotal = 0, transactionId = None,
      readyTime = None, isCheckoutVisible = False, showUserInfo = False,
      isOrderComplete = False, selectedPayment = None, employeeID = Some 1\<rparr>"

definition appetizer_two :: Appetizer_data where
  "appetizer_two =
     \<lparr>apt_selectedAppetizers = [ItemStr ''Chicken Egg Roll'', ItemStr ''Cream Cheese Rangoon''],
      apt_price = Some 2\<rparr>"

text \<open>
  A cart of one plate and one appetizer at the user-info step, with and without a
  payment method, and a run in which every request succeeds and the latest id is \<open>41\<close>.
\<close>

definition appetizer_ex_entry :: transaction_entry where
  "appetizer_ex_entry =
     \<lparr>te_itemid = Some 4, te_food1 = Some 16, te_food2 = Some 0, te_food3 = Some 0,
      te_food4 = Some 0\<rparr>"

definition appetizer_ex_line :: cart_line where
  "appetizer_ex_line =
     \<lparr>line_name = ''Appetizer: Chicken Egg Roll'', line_price = Some 2, line_size = None,
      line_isPremium = None, line_transactionEntry = appetizer_ex_entry\<rparr>"

definition app_unpaid :: App_data where
  "app_unpaid =
     \<lparr>cartItems = [plate_ex_line, appetizer_ex_line],
      transactionCart = [plate_ex_entry, appetizer_ex_entry],
      cartTotal = 13.3, transactionId = None, readyTime = None, isCheckoutVisible = False,
      showUserInfo = True, isOrderComplete = False, selectedPayment = None,
      employeeID = Some 1\<rparr>"

definition app_paid :: App_data where
  "app_paid = updatePaymentMethod (Some ''Card'') app_unpaid"

definition env_ex :: order_env where
  "env_ex =
     \<lparr>env_latestID = Some 41, env_isoDate = ''2024-12-01T18:30:00.000Z'',
      env_postTransaction = True, env_postTransactionItems = (\<lambda>i. True),
      env_clock = (\<lambda>i. (66600000, 1 / 2, 0))\<rparr>"

text \<open>
  The same run with the read of the latest id failing; and the cart the appetizer add
  of two appetizers builds, at the user-info step with a payment method.
\<close>

definition env_down :: order_env where
  "env_down = env_ex\<lparr>env_latestID := None\<rparr>"

definition app_two_appetizers :: App_data where
  "app_two_appetizers =
     updatePaymentMethod (Some ''Card'')
       (cart_run [AppetizerAdd api_ex appetizer_two] app_empty)"

text \<open>
  A cart whose first line is a Bigger Plate with all four food slots in use, and a run in which
  the line item of the second line is refused.
\<close>

definition bigger_plate_entry :: transaction_entry where
  "bigger_plate_entry =
     \<lparr>te_itemid = Some 3, te_food1 = Some 9, te_food2 = Some 14, te_food3 = Some 19,
      te_food4 = Some 12\<rparr>"

definition bigger_plate_line :: cart_line where
  "bigger_plate_line =
     \<lparr>line_name = ''Bigger Plate (Chow Mein + Orange Chicken, Honey Walnut Shrimp, Beijing Beef)'',
      line_price = Some 13.25, line_size = None, line_isPremium = Some True,
      line_transactionEntry = bigger_plate_entry\<rparr>"

definition app_bigger :: App_data where
  "app_bigger =
     app_paid\<lparr>cartItems := [bigger_plate_line, appetizer_ex_line],
              transactionCart := [bigger_plate_entry, appetizer_ex_entry]\<rparr>"

definition env_refused :: order_env where
  "env_refused = env_ex\<lparr>env_postTransactionItems := (\<lambda>i. i \<noteq> 1)\<rparr>"

section \<open>Rounding to doubles\<close>

lemma round_half_even_of_int: "round_half_even (of_int n) = n"
  by (simp add: round_half_even_def)

lemma round_half_even_error: "\<bar>of_int (round_half_even y) - y\<bar> \<le> 1 / 2"
proof -
  define t where "t = frac y"
  have y: "y = of_int \<lfloor>y\<rfloor> + t" by (simp add: frac_def t_def)
  have t: "0 \<le> t" "t < 1" by (simp_all add: frac_lt_1 t_def)
  consider "t < 1 / 2" | "t > 1 / 2" | "t = 1 / 2" by linarith
  then show ?thesis
  proof cases
    case 1
    then have "round_half_even y = \<lfloor>y\<rfloor>" by (simp add: round_half_even_def t_def)
    with y t 1 show ?thesis by linarith
  next
    case 2
    then have "round_half_even y = \<lfloor>y\<rfloor> + 1" by (simp add: round_half_even_def t_def)
    with y t 2 show ?thesis by linarith
  next
    case 3
    then have "round_half_even y = \<lfloor>y\<rfloor> \<or> round_half_even y = \<lfloor>y\<rfloor> + 1"
      by (simp add: round_half_even_def t_def)
    with y 3 show ?thesis by linarith
  qed
qed

lemma binade_eq:
  assumes "2 powi e \<le> \<bar>x\<bar>" and "\<bar>x\<bar> < 2 powi (e + 1)"
  shows "\<lfloor>log 2 \<bar>x\<bar>\<rfloor> = e"
proof -
  have "0 < (2::real) powi e" by simp
  with assms(1) have pos: "0 < \<bar>x\<bar>" by linarith
  have "(2::real) powr real_of_int e \<le> \<bar>x\<bar>" "\<bar>x\<bar> < (2::real) powr (real_of_int e + 1)"
    using assms powr_real_of_int' [of "2::real" e] powr_real_of_int' [of "2::real" "e + 1"]
    by simp_all
  with pos show ?thesis
    by (simp add: floor_log_eq_powr_iff)
qed

lemma binade_bounds:
  assumes "x \<noteq> 0"
  shows "2 powi \<lfloor>log 2 \<bar>x\<bar>\<rfloor> \<le> \<bar>x\<bar> \<and> \<bar>x\<bar> < 2 powi (\<lfloor>log 2 \<bar>x\<bar>\<rfloor> + 1)"
proof -
  have pos: "0 < \<bar>x\<bar>" using assms by simp
  have "\<lfloor>log 2 \<bar>x\<bar>\<rfloor> = \<lfloor>log 2 \<bar>x\<bar>\<rfloor>" ..
  then have "(2::real) powr real_of_int \<lfloor>log 2 \<bar>x\<bar>\<rfloor> \<le> \<bar>x\<bar>
      \<and> \<bar>x\<bar> < (2::real) powr (real_of_int \<lfloor>log 2 \<bar>x\<bar>\<rfloor> + 1)"
    using pos by (subst (asm) floor_log_eq_powr_iff) simp_all
  then show ?thesis
    using powr_real_of_int' [of "2::real" "\<lfloor>log 2 \<bar>x\<bar>\<rfloor>"]
      powr_real_of_int' [of "2::real" "\<lfloor>log 2 \<bar>x\<bar>\<rfloor> + 1"]
    by simp
qed

lemma ulp_exponent_eq:
  assumes "2 powi e \<le> \<bar>x\<bar>" and "\<bar>x\<bar> < 2 powi (e + 1)"
  shows "ulp_exponent x = max (e - 52) (- 1074)"
  by (simp add: ulp_exponent_def binade_eq [OF assms])


lemma round_double_exact:
  assumes x: "x = of_int m * 2 powi k" and m: "\<bar>m\<bar> < 2 ^ 53" and k: "- 1074 \<le> k"
  shows "round_double x = x"
proof (cases "x = 0")
  case True
  then show ?thesis by (simp add: round_double_def)
next
  case False
  define e where "e = \<lfloor>log 2 \<bar>x\<bar>\<rfloor>"
  define u where "u = ulp_exponent x"
  from binade_bounds [OF False] have lo: "2 powi e \<le> \<bar>x\<bar>"
    by (simp add: e_def)
  have "\<bar>x\<bar> = of_int \<bar>m\<bar> * 2 powi k"
    by (simp add: x abs_mult)
  also have "\<dots> < 2 ^ 53 * 2 powi k"
    using m by (intro mult_strict_right_mono) (simp_all flip: of_int_less_iff [where 'a = real])
  also have "\<dots> = 2 powi (53 + k)"
    by (simp add: power_int_add)
  finally have "(2::real) powi e < 2 powi (53 + k)"
    using lo by linarith
  then have "e < 53 + k"
    using power_int_increasing [of "53 + k" e "2::real"] by (cases "e < 53 + k") simp_all
  then have uk: "u \<le> k"
    using k unfolding u_def ulp_exponent_def e_def [symmetric] by simp
  have "x / 2 powi u = of_int m * 2 powi (k - u)"
    by (simp add: x power_int_diff)
  also have "\<dots> = of_int (m * 2 ^ nat (k - u))"
    using uk by (simp add: power_int_def)
  finally have "round_half_even (x / 2 powi u) = m * 2 ^ nat (k - u)"
    by (simp only: round_half_even_of_int)
  then have "round_double x = of_int (m * 2 ^ nat (k - u)) * 2 powi u"
    using False by (simp add: round_double_def u_def)
  also have "\<dots> = of_int m * (2 powi (k - u) * 2 powi u)"
    using uk by (simp add: power_int_def)
  also have "\<dots> = x"
    by (simp add: x flip: power_int_add)
  finally show ?thesis .
qed

lemma round_double_error:
  assumes "2 powi (- 1022) \<le> \<bar>x\<bar>"
  shows "\<bar>round_double x - x\<bar> \<le> \<bar>x\<bar> / 2 ^ 53"
proof -
  have "0 < (2::real) powi (- 1022)" by simp
  with assms have nz: "x \<noteq> 0" by auto
  define e where "e = \<lfloor>log 2 \<bar>x\<bar>\<rfloor>"
  from binade_bounds [OF nz] have lo: "2 powi e \<le> \<bar>x\<bar>" and hi: "\<bar>x\<bar> < 2 powi (e + 1)"
    by (simp_all add: e_def)
  from assms hi have "(2::real) powi (- 1022) < 2 powi (e + 1)" by linarith
  then have "- 1022 < e + 1"
    using power_int_increasing [of "e + 1" "- 1022" "2::real"] by (cases "- 1022 < e + 1") simp_all
  then have u: "ulp_exponent x = e - 52"
    unfolding ulp_exponent_def e_def [symmetric] by simp
  define q where "q = (2::real) powi (e - 52)"
  have q: "0 < q" by (simp add: q_def)
  have "round_double x - x = (of_int (round_half_even (x / q)) - x / q) * q"
    using nz q by (simp add: round_double_def u q_def field_simps)
  then have "\<bar>round_double x - x\<bar> = \<bar>of_int (round_half_even (x / q)) - x / q\<bar> * q"
    using q by (simp add: abs_mult)
  also have "\<dots> \<le> 1 / 2 * q"
    using q round_half_even_error [of "x / q"] by (intro mult_right_mono) simp_all
  also have "\<dots> = 2 powi e / 2 ^ 53"
    by (simp add: q_def power_int_diff)
  also have "\<dots> \<le> \<bar>x\<bar> / 2 ^ 53"
    using lo by (simp add: divide_right_mono)
  finally show ?thesis .
qed

text \<open>The rounding of a double operation has relative error at most \<open>2^-53\<close>.\<close>

lemma round_double_relative:
  assumes "2 powi (- 1022) \<le> \<bar>x\<bar>"
  shows "\<exists>d. \<bar>d\<bar> \<le> 1 / 2 ^ 53 \<and> round_double x = x * (1 + d)"
proof -
  have "0 < (2::real) powi (- 1022)" by simp
  with assms have nz: "x \<noteq> 0" by auto
  define d where "d = (round_double x - x) / x"
  have "\<bar>d\<bar> = \<bar>round_double x - x\<bar> / \<bar>x\<bar>"
    by (simp add: d_def)
  also have "\<dots> \<le> (\<bar>x\<bar> / 2 ^ 53) / \<bar>x\<bar>"
    using round_double_error [OF assms] by (intro divide_right_mono) simp_all
  also have "\<dots> = 1 / 2 ^ 53"
    using nz by simp
  finally have "\<bar>d\<bar> \<le> 1 / 2 ^ 53" .
  moreover have "round_double x = x * (1 + d)"
    using nz by (simp add: d_def field_simps)
  ultimately show ?thesis by blast
qed

lemma round_double_small_numbers:
  "round_double 0 = 0" "round_double (3 / 2) = 3 / 2" "round_double 3 = 3"
  using round_double_exact [of "3 / 2" 3 "- 1"] round_double_exact [of 3 3 0]
  by (simp_all add: round_double_def)

lemma price_5_03_double: "is_double price_5_03"
  using round_double_exact [of price_5_03 5663276531418399 "- 50"]
  by (simp add: is_double_def price_5_03_def)

lemma price_5_03_plus_3: "round_double (price_5_03 + 3) = 4520488125973136 / 2 ^ 49"
proof -
  have "ulp_exponent (price_5_03 + 3) = max (3 - 52) (- 1074)"
    by (rule ulp_exponent_eq) (simp_all add: price_5_03_def)
  then show ?thesis
    by (simp add: round_double_def round_half_even_def frac_def price_5_03_def)
qed

lemma price_9_75_double: "is_double (39 / 4)"
  using round_double_exact [of "39 / 4" 39 "- 2"] by (simp add: is_double_def)

lemma price_9_75_plus: "round_double (39 / 4 + 3 / 2) = 45 / 4"
  using round_double_exact [of "45 / 4" 45 "- 2"] by simp

section \<open>Plate: selection arity and price\<close>




lemma selectEntree_at_most_two:
  "length (plate_selectedEntrees s) \<le> 2 \<Longrightarrow> length (plate_selectedEntrees (selectEntree e s)) \<le> 2"
  by (auto simp: selectEntree_def intro: order_trans [OF length_filter_le])


lemma two_elements: "length xs = 2 \<Longrightarrow> \<exists>x y. xs = [x, y]"
  by (cases xs; simp; cases "tl xs"; auto)



lemma plate_ex_emits:
  "fst (snd (plate_addToCart api_ex plate_ex)) =
     [AddToCart (One plate_ex_line), AddToTransactionCart plate_ex_entry]"
  using price_9_75_plus
  by (simp add: plate_addToCart_def plate_canAddToCart_def plate_ex_def api_ex_def
      plate_linePrice_def premiumCount_def plate_isPremium_def plate_ex_line_def
      plate_ex_entry_def js_add_def js_mul_def round_double_small_numbers Let_def)


lemma plate_addToCart_line:
  assumes "AddToCart (One item) \<in> set (fst (snd (plate_addToCart a s)))"
  shows "plate_canAddToCart s \<and> line_price item = Some (plate_linePrice s)"
  using assms
  by (auto simp: plate_addToCart_def Let_def split: if_splits option.splits list.splits)

lemma plate_premium_emits:
  "fst (snd (plate_addToCart api_ex plate_premium)) =
     [AddToCart (One plate_premium_line),
      AddToTransactionCart (line_transactionEntry plate_premium_line)]"
  using price_5_03_plus_3
  by (simp add: plate_addToCart_def plate_canAddToCart_def plate_premium_def api_ex_def
      plate_linePrice_def premiumCount_def plate_isPremium_def plate_premium_line_def
      js_add_def js_mul_def round_double_small_numbers Let_def)

lemma plate_plain_emits:
  "fst (snd (plate_addToCart api_ex plate_plain)) =
     [AddToCart (One plate_plain_line),
      AddToTransactionCart (line_transactionEntry plate_plain_line)]"
  using price_9_75_double
  by (simp add: plate_addToCart_def plate_canAddToCart_def plate_plain_def api_ex_def
      plate_linePrice_def premiumCount_def plate_isPremium_def plate_plain_line_def
      js_add_def js_mul_def round_double_small_numbers is_double_def Let_def)

text \<open>
  C5, as the claim states it, fails by the rounding of the addition: for a Plate at the
  base price 5.03 with two premium entrees the line's price is the double
  8.030000000000001, which is not the base price plus 3.00.
\<close>

theorem C5_plate_price_counterexample:
  "AddToCart (One plate_premium_line) \<in> set (fst (snd (plate_addToCart api_ex plate_premium)))
   \<and> plate_price plate_premium = Some price_5_03
   \<and> line_price plate_premium_line = Some (price_5_03 + 3 + 1 / 2 ^ 50)
   \<and> line_price plate_premium_line \<noteq> Some (price_5_03 + 3)"
proof -
  have "AddToCart (One plate_premium_line)
      \<in> set (fst (snd (plate_addToCart api_ex plate_premium)))"
    by (simp add: plate_premium_emits)
  moreover have "plate_price plate_premium = Some price_5_03"
    by (simp add: plate_premium_def)
  moreover have "line_price plate_premium_line = Some (price_5_03 + 3 + 1 / 2 ^ 50)"
    by (simp add: plate_premium_line_def price_5_03_def)
  ultimately show ?thesis by simp
qed

text \<open>
  C5, amended. The price of the cart line a Plate emits is the sum, as JavaScript
  numbers, of the Plate base price and 1.50 for each of the two selected entrees whose
  name is in the premium list: the base price itself with none, and with one or two the
  double nearest to the base price plus 1.50 or plus 3.00, which differs from that sum
  by at most the fraction \<open>2^-53\<close> of it. (The base price is a double and not negative.)
\<close>

theorem C5_plate_price:
  assumes "AddToCart (One item) \<in> set (fst (snd (plate_addToCart a s)))"
    and "plate_price s = Some base" and "is_double base" and "0 \<le> base"
  shows "\<exists>e1 e2. plate_selectedEntrees s = [e1, e2]
    \<and> (getEntreeName (Some e1) \<notin> set (plate_premiumEntrees s)
         \<and> getEntreeName (Some e2) \<notin> set (plate_premiumEntrees s)
        \<longrightarrow> line_price item = Some base)
    \<and> ((getEntreeName (Some e1) \<in> set (plate_premiumEntrees s))
          \<noteq> (getEntreeName (Some e2) \<in> set (plate_premiumEntrees s))
        \<longrightarrow> line_price item = Some (round_double (base + 1.5)))
    \<and> (getEntreeName (Some e1) \<in> set (plate_premiumEntrees s)
         \<and> getEntreeName (Some e2) \<in> set (plate_premiumEntrees s)
        \<longrightarrow> line_price item = Some (round_double (base + 3)))
    \<and> \<bar>round_double (base + 1.5) - (base + 1.5)\<bar> \<le> (base + 1.5) / 2 ^ 53
    \<and> \<bar>round_double (base + 3) - (base + 3)\<bar> \<le> (base + 3) / 2 ^ 53"
proof -
  from plate_addToCart_line [OF assms(1)]
  have c: "plate_canAddToCart s" and p: "line_price item = Some (plate_linePrice s)"
    by simp_all
  from c have "length (plate_selectedEntrees s) = 2"
    by (simp add: plate_canAddToCart_def)
  then obtain e1 e2 where e: "plate_selectedEntrees s = [e1, e2]"
    using two_elements by blast
  let ?p1 = "getEntreeName (Some e1) \<in> set (plate_premiumEntrees s)"
  let ?p2 = "getEntreeName (Some e2) \<in> set (plate_premiumEntrees s)"
  have b: "round_double base = base"
    using assms(3) by (simp add: is_double_def)
  have k: "premiumCount s = (if ?p1 then 1 else 0) + (if ?p2 then 1 else 0)"
    by (simp add: premiumCount_def e plate_isPremium_def)
  have none: "\<not> ?p1 \<and> \<not> ?p2 \<longrightarrow> line_price item = Some base"
    using p b assms(2)
    by (simp add: plate_linePrice_def k js_add_def js_mul_def round_double_small_numbers)
  have one: "?p1 \<noteq> ?p2 \<longrightarrow> line_price item = Some (round_double (base + 1.5))"
    using p assms(2)
    by (auto simp: plate_linePrice_def k js_add_def js_mul_def round_double_small_numbers)
  have two: "?p1 \<and> ?p2 \<longrightarrow> line_price item = Some (round_double (base + 3))"
    using p assms(2)
    by (simp add: plate_linePrice_def k js_add_def js_mul_def round_double_small_numbers)
  have small: "(2::real) powi (- 1022) \<le> 1"
    by (simp add: power_int_minus inverse_eq_divide)
  have "2 powi (- 1022) \<le> \<bar>base + 1.5\<bar>" "2 powi (- 1022) \<le> \<bar>base + 3\<bar>"
    using assms(4) small by simp_all
  from round_double_error [OF this(1)] round_double_error [OF this(2)] assms(4)
  have err: "\<bar>round_double (base + 1.5) - (base + 1.5)\<bar> \<le> (base + 1.5) / 2 ^ 53"
    "\<bar>round_double (base + 3) - (base + 3)\<bar> \<le> (base + 3) / 2 ^ 53"
    by simp_all
  from e none one two err show ?thesis by blast
qed

theorem C5_plate_price_witness:
  "AddToCart (One plate_premium_line) \<in> set (fst (snd (plate_addToCart api_ex plate_premium)))
   \<and> plate_price plate_premium = Some price_5_03 \<and> is_double price_5_03 \<and> 0 \<le> price_5_03
   \<and> line_price plate_premium_line = Some (round_double (price_5_03 + 3))
   \<and> round_double (price_5_03 + 3) = 4520488125973136 / 2 ^ 49
   \<and> AddToCart (One plate_ex_line) \<in> set (fst (snd (plate_addToCart api_ex plate_ex)))
   \<and> line_price plate_ex_line = Some (round_double (39 / 4 + 1.5))
   \<and> round_double (39 / 4 + 1.5) = 45 / 4
   \<and> AddToCart (One plate_plain_line) \<in> set (fst (snd (plate_addToCart api_ex plate_plain)))
   \<and> line_price plate_plain_line = Some (39 / 4)"
proof -
  have e2: "AddToCart (One plate_premium_line) \<in> set (fst (snd (plate_addToCart api_ex plate_premium)))"
    by (simp add: plate_premium_emits)
  have b2: "plate_price plate_premium = Some price_5_03" "0 \<le> price_5_03"
    by (simp_all add: plate_premium_def price_5_03_def)
  from C5_plate_price [OF e2 b2(1) price_5_03_double b2(2)]
  have two: "line_price plate_premium_line = Some (round_double (price_5_03 + 3))"
    by (auto simp: plate_premium_def)
  have e1: "AddToCart (One plate_ex_line) \<in> set (fst (snd (plate_addToCart api_ex plate_ex)))"
    by (simp add: plate_ex_emits)
  have b1: "plate_price plate_ex = Some (39 / 4)"
    by (simp add: plate_ex_def)
  from C5_plate_price [OF e1 b1 price_9_75_double]
  have one: "line_price plate_ex_line = Some (round_double (39 / 4 + 1.5))"
    by (auto simp: plate_ex_def)
  have e0: "AddToCart (One plate_plain_line) \<in> set (fst (snd (plate_addToCart api_ex plate_plain)))"
    by (simp add: plate_plain_emits)
  have b0: "plate_price plate_plain = Some (39 / 4)"
    by (simp add: plate_plain_def)
  from C5_plate_price [OF e0 b0 price_9_75_double]
  have none: "line_price plate_plain_line = Some (39 / 4)"
    by (auto simp: plate_plain_def)
  from e2 b2 two e1 one e0 none price_5_03_double price_5_03_plus_3 price_9_75_plus
  show ?thesis by simp
qed

section \<open>A la carte: calls of selectSize\<close>

lemma findIndex_Some: "findIndex P xs = Some i \<Longrightarrow> i < length xs \<and> P (xs ! i)"
proof (induction xs arbitrary: i)
  case Nil
  then show ?case by simp
next
  case (Cons x xs)
  then show ?case
    by (cases "P x") (auto split: option.splits)
qed

lemma alc_run_append: "alc_run a (evs @ evs') st = alc_run a evs' (alc_run a evs st)"
  by (induction evs arbitrary: st) simp_all

lemma toggle_fields:
  "alc_currentItem (toggle ty x s) = Some x"
  "alc_currentItemType (toggle ty x s) = Some ty"
  "alc_showSizeModal (toggle ty x s)"
  "alc_selectedSides (toggle ty x s) = alc_selectedSides s"
  "alc_selectedEntrees (toggle ty x s) = alc_selectedEntrees s"
  "alc_premiumEntrees (toggle ty x s) = alc_premiumEntrees s"
  by (cases ty; simp add: toggle_def toggleSides_def toggleEntrees_def)+

lemma toggle_names:
  "currentName ty (toggle ty x s) = nameOf ty x"
  "getFoodID a (toggle ty x s) (Some x) = api_foodid a (nameOf ty x)"
  "selectedList ty' (toggle ty x s) = selectedList ty' s"
  "shownType (toggle ty x s) = ty"
  by (cases ty; cases ty'; simp add: currentName_def nameOf_def getFoodID_def selectedList_def
      shownType_def toggle_fields)+

text \<open>A pick with the mouse, with no call pending, is one call that goes on at once.\<close>

lemma mousePick_run:
  "alc_run a (mousePick ty x sz @ evs) (s, []) = alc_run a evs (pickNow a ty x sz s, [])"
  by (simp add: mousePick_def pickNow_def toggle_fields toggle_names)

lemma mousePicks_run:
  "alc_run a (mousePicks ps) (s, []) = (pickAll a ps s, [])"
proof (induction ps arbitrary: s)
  case Nil
  then show ?case by simp
next
  case (Cons p ps)
  obtain ty x sz where "p = (ty, x, sz)" by (cases p)
  with Cons.IH mousePick_run [of a ty x sz "mousePicks ps" s] show ?case by simp
qed

lemma selectedList_pickNow:
  assumes "api_foodid a (nameOf ty x) = Some foodID"
  shows "selectedList ty (pickNow a ty x sz s) =
     (case findIndex (\<lambda>item. str_includes (line_name item) (nameOf ty x)) (selectedList ty s) of
        Some i \<Rightarrow> (selectedList ty s)[i := sizedEntry sz ty foodID (toggle ty x s)]
      | None \<Rightarrow> selectedList ty s @ [sizedEntry sz ty foodID (toggle ty x s)])"
  using assms
  by (cases ty)
    (simp_all add: pickNow_def selectSize_begin_def selectSize_resume_def toggle_fields
      toggle_names selectedList_def Let_def split: option.splits)

lemma selectedList_pickNow_other:
  "ty' \<noteq> ty \<Longrightarrow> selectedList ty (pickNow a ty' x sz s) = selectedList ty s"
  by (cases ty; cases ty')
    (simp_all add: pickNow_def selectSize_begin_def selectSize_resume_def toggle_fields
      selectedList_def Let_def split: option.splits)

lemma pickNow_failed:
  "api_foodid a (nameOf ty x) = None \<Longrightarrow> pickNow a ty x sz s = toggle ty x s"
  by (simp add: pickNow_def selectSize_begin_def selectSize_resume_def toggle_fields
      toggle_names)

lemma picked_stored:
  assumes "api_foodid a (nameOf ty x) = Some foodID"
  shows "sizedEntry sz ty foodID (toggle ty x s) \<in> set (selectedList ty (pickNow a ty x sz s))"
proof (cases "findIndex (\<lambda>item. str_includes (line_name item) (nameOf ty x)) (selectedList ty s)")
  case None
  then show ?thesis by (simp add: selectedList_pickNow [OF assms])
next
  case (Some i)
  then have "i < length (selectedList ty s)" by (simp add: findIndex_Some)
  with Some show ?thesis
    by (simp add: selectedList_pickNow [OF assms] set_update_memI)
qed

lemma sizedEntry_label:
  "line_name (sizedEntry sz ty foodID (toggle ty x s)) = entryLabel ty (nameOf ty x) (size_name sz)"
  by (simp add: sizedEntry_def toggle_names)

lemma startsWith_append: "startsWith (n @ b) n"
  by (induction n) simp_all

lemma str_includes_startsWith: "startsWith s n \<Longrightarrow> str_includes s n"
  by (cases s; cases n) simp_all

lemma str_includes_middle: "str_includes (a @ n @ b) n"
  by (induction a) (simp_all add: str_includes_startsWith startsWith_append)

lemma entryLabel_includes: "str_includes (entryLabel ty n sz) n"
proof -
  have "entryLabel ty n sz =
    ((case ty of SideT \<Rightarrow> ''Side'' | EntreeT \<Rightarrow> ''Entree'') @ '': '') @ n @ ('' ('' @ sz @ '')'')"
    by (simp add: entryLabel_def)
  then show ?thesis by (simp only: str_includes_middle)
qed

lemma selectSize_resume_length:
  "length (selectedList ty s) \<le> length (selectedList ty (selectSize_resume c s))"
  by (cases ty; cases "pc_type c")
    (simp_all add: selectSize_resume_def selectedList_def Let_def split: option.splits)

lemma indices_in_range_iff:
  "indices_in_range (s, ps) \<longleftrightarrow>
     (\<forall>c \<in> set ps. \<forall>i. pc_existingItemIndex c = Some i
        \<longrightarrow> i < length (selectedList (pc_type c) s))"
  by (auto simp: indices_in_range_def list_all_iff split: option.splits)

lemma indices_in_range_step:
  assumes "indices_in_range st"
  shows "indices_in_range (alc_step a ev st)"
proof -
  obtain s ps where st: "st = (s, ps)" by (cases st)
  from assms st have inv: "\<forall>c \<in> set ps. \<forall>i. pc_existingItemIndex c = Some i
      \<longrightarrow> i < length (selectedList (pc_type c) s)"
    by (simp add: indices_in_range_iff)
  show ?thesis
  proof (cases ev)
    case (Toggle ty x)
    with st inv show ?thesis
      by (simp add: indices_in_range_iff toggle_names)
  next
    case (Select sz)
    have "pc_existingItemIndex (selectSize_begin a sz ty s) = Some i
        \<Longrightarrow> i < length (selectedList (pc_type (selectSize_begin a sz ty s)) s)" for ty i
      by (auto simp: selectSize_begin_def dest: findIndex_Some)
    with Select st inv show ?thesis
      by (auto simp: indices_in_range_iff)
  next
    case (Respond i)
    show ?thesis
    proof (cases "i < length ps")
      case False
      with Respond st assms show ?thesis by simp
    next
      case True
      have sub: "set (take i ps @ drop (Suc i) ps) \<subseteq> set ps"
        using set_take_subset [of i ps] set_drop_subset [of "Suc i" ps] by auto
      have "\<forall>c \<in> set (take i ps @ drop (Suc i) ps). \<forall>j. pc_existingItemIndex c = Some j
          \<longrightarrow> j < length (selectedList (pc_type c) (selectSize_resume (ps ! i) s))"
      proof (intro ballI allI impI)
        fix c j
        assume "c \<in> set (take i ps @ drop (Suc i) ps)" and "pc_existingItemIndex c = Some j"
        with sub inv have "j < length (selectedList (pc_type c) s)" by blast
        with selectSize_resume_length [of "pc_type c" s "ps ! i"]
        show "j < length (selectedList (pc_type c) (selectSize_resume (ps ! i) s))"
          by linarith
      qed
      with Respond st True show ?thesis
        by (simp add: indices_in_range_iff)
    qed
  qed
qed

lemma indices_in_range_run:
  "indices_in_range st \<Longrightarrow> indices_in_range (alc_run a evs st)"
  by (induction evs arbitrary: st) (simp_all add: indices_in_range_step)

lemma indices_in_range_initial: "indices_in_range (alc_run a evs (s, []))"
  by (rule indices_in_range_run) (simp add: indices_in_range_iff)

section \<open>A la carte: premium prices\<close>

text \<open>
  C6. The claim asks that every line that results from picking a premium entree takes
  its price from the premium table. A pick with the keyboard starts two calls of
  \<open>selectSize\<close>; the first stores the entree at the premium price and clears
  \<open>currentItem\<close>, and the second then stores a line labelled Unknown Entree, not flagged
  premium, at the price of the size itself (11.20), carrying the premium entree's food
  id.
\<close>

theorem C6_keyboard_pick_standard_price:
  "map (\<lambda>l. (line_name l, line_price l, line_isPremium l, te_food1 (line_transactionEntry l)))
     (alc_selectedEntrees (fst (alc_run api_ex
        (keyPick EntreeT (ItemStr ''Honey Walnut Shrimp'') large_entree)
        (alc_initial [''Honey Walnut Shrimp''], [])))) =
     [(''Entree: Honey Walnut Shrimp (Large)'', Some 15.7, Some True, Some 19),
      (''Entree: Unknown Entree (Large)'', Some 11.2, Some False, Some 19)]"
  by (simp add: keyPick_def alc_initial_def api_ex_def large_entree_def toggle_def
      toggleEntrees_def shownType_def selectSize_begin_def selectSize_resume_def
      selectedList_def currentName_def getFoodID_def sizedEntry_def sizePrice_def
      alc_isPremium_def premiumPrices_def entryLabel_def Let_def)

text \<open>
  A pick with the mouse, with no call pending, stores the premium entree at the price
  of the premium table, whatever price the size itself carries, and that entry is the
  line \<open>addToCart\<close> emits.
\<close>

lemma alc_addToCart_emits:
  "item \<in> set (alc_selectedEntrees s) \<Longrightarrow> AddToCart (One item) \<in> set (snd (alc_addToCart s))"
  by (cases "alc_selectedEntrees s") (auto simp: alc_addToCart_def alc_canAddToCart_def)

lemma mousePick_premium_price:
  assumes "getEntreeName (Some x) \<in> set (alc_premiumEntrees s)"
    and "api_foodid a (getEntreeName (Some x)) = Some foodID"
  shows "fst (alc_run a (mousePick EntreeT x sz) (s, [])) = pickNow a EntreeT x sz s
    \<and> sizedEntry sz EntreeT foodID (toggleEntrees x s)
        \<in> set (alc_selectedEntrees (pickNow a EntreeT x sz s))
    \<and> AddToCart (One (sizedEntry sz EntreeT foodID (toggleEntrees x s)))
        \<in> set (snd (alc_addToCart (pickNow a EntreeT x sz s)))
    \<and> line_price (sizedEntry sz EntreeT foodID (toggleEntrees x s)) = premiumPrices (size_name sz)"
proof -
  have f: "api_foodid a (nameOf EntreeT x) = Some foodID"
    using assms(2) by (simp add: nameOf_def)
  have 0: "fst (alc_run a (mousePick EntreeT x sz) (s, [])) = pickNow a EntreeT x sz s"
    using mousePick_run [of a EntreeT x sz "[]" s] by simp
  have 1: "sizedEntry sz EntreeT foodID (toggleEntrees x s)
      \<in> set (alc_selectedEntrees (pickNow a EntreeT x sz s))"
    using picked_stored [OF f, of sz s] by (simp add: selectedList_def toggle_def)
  have 2: "line_price (sizedEntry sz EntreeT foodID (toggleEntrees x s)) = premiumPrices (size_name sz)"
    using assms(1) by (simp add: sizedEntry_def sizePrice_def alc_isPremium_def toggleEntrees_def)
  from 0 1 2 alc_addToCart_emits [OF 1] show ?thesis by simp
qed

section \<open>Toggling a side twice\<close>






section \<open>A la carte: one entry per item name\<close>

text \<open>
  C10. The claim asks that the selected lists never hold two entries for one item name
  and that a size chosen for an item that has an entry overwrites that entry. The search
  for the existing entry is a substring search on the labels and overwrites the first
  hit. With sides named Chow Mein and Medium, picked with the mouse: Chow Mein (Large)
  is pushed, Medium (Large) is pushed, Chow Mein is overwritten with its Medium size,
  and then the pick of Medium (Large) hits the label of Chow Mein (Medium) first and
  overwrites that entry. The list now holds two entries for the item Medium and none
  for Chow Mein.
\<close>

theorem C10_same_name_twice:
  "map line_name (alc_selectedSides
     (fst (alc_run api_ex (mousePicks clash_picks) (alc_initial [], [])))) =
     [''Side: Medium (Large)'', ''Side: Medium (Large)'']"
  by (simp add: clash_picks_def mousePick_def alc_initial_def api_ex_def medium_side_def
      large_side_def toggle_def toggleSides_def shownType_def selectSize_begin_def
      selectSize_resume_def selectedList_def currentName_def getFoodID_def sizedEntry_def
      sizePrice_def alc_isPremium_def entryLabel_def Let_def)

text \<open>
  The overlapping calls of a pick with the keyboard break it too: one pick of Chow Mein
  adds two entries, the second under the name Unknown Side.
\<close>

lemma keyboard_pick_two_entries:
  "map line_name (alc_selectedSides
     (fst (alc_run api_ex (keyPick SideT (ItemStr ''Chow Mein'') medium_side)
        (alc_initial [], [])))) =
     [''Side: Chow Mein (Medium)'', ''Side: Unknown Side (Medium)'']"
  by (simp add: keyPick_def alc_initial_def api_ex_def medium_side_def toggle_def
      toggleSides_def shownType_def selectSize_begin_def selectSize_resume_def
      selectedList_def currentName_def getFoodID_def sizedEntry_def sizePrice_def
      alc_isPremium_def entryLabel_def Let_def)

text \<open>
  Where the substring search cannot go wrong and no calls overlap, the code does keep
  one entry per name: for picks with the mouse whose names are separated, the lists are
  the keyed selection, whose names are distinct.
\<close>

lemma findIndex_update:
  assumes "\<forall>(k, v) \<in> set K. P v \<longleftrightarrow> k = n"
  shows "(case findIndex P (map snd K) of
            Some i \<Rightarrow> (map snd K)[i := e]
          | None \<Rightarrow> map snd K @ [e])
    = map snd (AList.update n e K)"
  using assms
proof (induction K)
  case Nil
  then show ?case by simp
next
  case (Cons p K)
  obtain k v where p: "p = (k, v)" by (cases p)
  from Cons.prems p have pk: "P v \<longleftrightarrow> k = n" by simp
  from Cons.prems have "\<forall>(k, v) \<in> set K. P v \<longleftrightarrow> k = n" by simp
  from Cons.IH [OF this] pk p show ?case
    by (cases "findIndex P (map snd K)") auto
qed

lemma set_update_subset: "set (AList.update k v al) \<subseteq> insert (k, v) (set al)"
  by (induction al) auto

lemma separatedD:
  assumes "separated U" and "p1 \<in> set U" and "p2 \<in> set U" and "pick_type p1 = pick_type p2"
    and "str_includes (pick_label p1) (pick_name p2)"
  shows "pick_name p1 = pick_name p2"
proof -
  from assms(1) have "\<forall>a \<in> set U. \<forall>b \<in> set U.
      pick_type a = pick_type b \<and> str_includes (pick_label a) (pick_name b)
        \<longrightarrow> pick_name a = pick_name b"
    unfolding separated_def list_all_iff .
  with assms(2-) show ?thesis by blast
qed

lemma pick_step:
  assumes sep: "separated U" and p: "(ty', x, sz) \<in> set U"
    and L: "selectedList ty s = map snd K"
    and lab: "\<forall>(k, v) \<in> set K.
      \<exists>q \<in> set U. pick_type q = ty \<and> pick_name q = k \<and> line_name v = pick_label q"
  shows "selectedList ty (pickNow a ty' x sz s) = map snd (fileUnder a ty (ty', x, sz) s K)
    \<and> (\<forall>(k, v) \<in> set (fileUnder a ty (ty', x, sz) s K).
          \<exists>q \<in> set U. pick_type q = ty \<and> pick_name q = k \<and> line_name v = pick_label q)"
proof (cases "ty' = ty")
  case False
  with L lab show ?thesis by (simp add: selectedList_pickNow_other)
next
  case True
  show ?thesis
  proof (cases "api_foodid a (nameOf ty x)")
    case None
    with True L lab show ?thesis by (simp add: pickNow_failed toggle_names)
  next
    case (Some foodID)
    let ?n = "nameOf ty x"
    let ?e = "sizedEntry sz ty foodID (toggle ty x s)"
    have key: "\<forall>(k, v) \<in> set K. str_includes (line_name v) ?n \<longleftrightarrow> k = ?n"
    proof (clarify, rule iffI)
      fix k v assume kv: "(k, v) \<in> set K"
      with lab obtain q where q: "q \<in> set U" "pick_type q = ty" "pick_name q = k"
        "line_name v = pick_label q" by blast
      { assume "str_includes (line_name v) ?n"
        with q True have "str_includes (pick_label q) (pick_name (ty', x, sz))" by simp
        from separatedD [OF sep q(1) p _ this] q True show "k = ?n" by simp }
      { assume "k = ?n"
        obtain t y z where "q = (t, y, z)" by (cases q)
        with q have "line_name v = entryLabel ty k (size_name z)" by auto
        with \<open>k = ?n\<close> show "str_includes (line_name v) ?n"
          by (simp add: entryLabel_includes) }
    qed
    have "selectedList ty (pickNow a ty' x sz s) =
        (case findIndex (\<lambda>item. str_includes (line_name item) ?n) (map snd K) of
           Some i \<Rightarrow> (map snd K)[i := ?e]
         | None \<Rightarrow> map snd K @ [?e])"
      using True L by (simp add: selectedList_pickNow [OF Some] cong: option.case_cong)
    also have "\<dots> = map snd (AList.update ?n ?e K)"
      by (rule findIndex_update [OF key])
    finally have 1: "selectedList ty (pickNow a ty' x sz s) =
        map snd (fileUnder a ty (ty', x, sz) s K)"
      using True Some by simp
    have 2: "\<forall>(k, v) \<in> set (AList.update ?n ?e K).
        \<exists>q \<in> set U. pick_type q = ty \<and> pick_name q = k \<and> line_name v = pick_label q"
    proof clarify
      fix k v assume "(k, v) \<in> set (AList.update ?n ?e K)"
      with set_update_subset have "(k, v) = (?n, ?e) \<or> (k, v) \<in> set K" by fastforce
      then show "\<exists>q \<in> set U. pick_type q = ty \<and> pick_name q = k \<and> line_name v = pick_label q"
      proof
        assume "(k, v) = (?n, ?e)"
        with p True show ?thesis
          by (intro bexI [of _ "(ty', x, sz)"]) (simp_all add: sizedEntry_label)
      next
        assume "(k, v) \<in> set K"
        with lab show ?thesis by blast
      qed
    qed
    from 1 2 True Some show ?thesis by simp
  qed
qed

lemma run_keyed:
  assumes "separated U" and "set ps \<subseteq> set U"
    and "selectedList ty s = map snd K"
    and "\<forall>(k, v) \<in> set K.
      \<exists>q \<in> set U. pick_type q = ty \<and> pick_name q = k \<and> line_name v = pick_label q"
  shows "selectedList ty (pickAll a ps s) = map snd (keyedSelection a ty ps s K)
    \<and> (\<forall>(k, v) \<in> set (keyedSelection a ty ps s K).
          \<exists>q \<in> set U. pick_type q = ty \<and> pick_name q = k \<and> line_name v = pick_label q)"
  using assms(2-)
proof (induction ps arbitrary: s K)
  case Nil
  then show ?case by simp
next
  case (Cons p ps)
  obtain ty' x sz where p: "p = (ty', x, sz)" by (cases p)
  from Cons.prems(1) p have pin: "(ty', x, sz) \<in> set U" and rest: "set ps \<subseteq> set U"
    by simp_all
  from pick_step [OF assms(1) pin Cons.prems(2,3), of a]
  have "selectedList ty (pickNow a ty' x sz s) = map snd (fileUnder a ty (ty', x, sz) s K)"
    and "\<forall>(k, v) \<in> set (fileUnder a ty (ty', x, sz) s K).
          \<exists>q \<in> set U. pick_type q = ty \<and> pick_name q = k \<and> line_name v = pick_label q"
    by simp_all
  from Cons.IH [OF rest this] p show ?case by simp
qed

lemma fileUnder_distinct:
  "distinct (map fst K) \<Longrightarrow> distinct (map fst (fileUnder a ty p s K))"
  by (cases p) (simp add: distinct_update split: option.splits)

lemma keyed_distinct:
  "distinct (map fst K) \<Longrightarrow> distinct (map fst (keyedSelection a ty ps s K))"
proof (induction ps arbitrary: s K)
  case Nil
  then show ?case by simp
next
  case (Cons p ps)
  obtain ty' x sz where p: "p = (ty', x, sz)" by (cases p)
  have "distinct (map fst (fileUnder a ty (ty', x, sz) s K))"
    by (rule fileUnder_distinct [OF Cons.prems])
  from Cons.IH [OF this] p show ?case by (simp only: keyedSelection.simps)
qed

lemma separated_mouse_picks_keyed:
  assumes "separated ps" and "alc_selectedSides s = []" and "alc_selectedEntrees s = []"
  shows "selectedList ty (fst (alc_run a (mousePicks ps) (s, []))) =
       map snd (keyedSelection a ty ps s [])
    \<and> distinct (map fst (keyedSelection a ty ps s []))
    \<and> (\<forall>(k, v) \<in> set (keyedSelection a ty ps s []).
          \<exists>sz. line_name v = entryLabel ty k sz)"
proof -
  have e: "selectedList ty s = map snd []"
    using assms(2,3) by (cases ty) (simp_all add: selectedList_def)
  have "selectedList ty (pickAll a ps s) = map snd (keyedSelection a ty ps s [])
    \<and> (\<forall>(k, v) \<in> set (keyedSelection a ty ps s []).
          \<exists>q \<in> set ps. pick_type q = ty \<and> pick_name q = k \<and> line_name v = pick_label q)"
    by (rule run_keyed [OF assms(1) _ e]) simp_all
  moreover have "\<exists>sz. pick_label q = entryLabel (pick_type q) (pick_name q) sz" for q
    by (cases q) auto
  ultimately have "selectedList ty (pickAll a ps s) = map snd (keyedSelection a ty ps s [])
    \<and> (\<forall>(k, v) \<in> set (keyedSelection a ty ps s []). \<exists>sz. line_name v = entryLabel ty k sz)"
    by fastforce
  moreover have "distinct (map fst (keyedSelection a ty ps s []))"
    by (rule keyed_distinct) simp
  ultimately show ?thesis by (simp add: mousePicks_run)
qed

lemma plain_picks_separated: "separated plain_picks"
  by (simp add: separated_def plain_picks_def medium_side_def large_side_def nameOf_def
      entryLabel_def)

lemma plain_picks_one_entry_per_name:
  "map line_name (alc_selectedSides
     (fst (alc_run api_ex (mousePicks plain_picks) (alc_initial [], [])))) =
     [''Side: Chow Mein (Medium)'', ''Side: Fried Rice (Medium)'']"
  by (simp add: plain_picks_def mousePick_def alc_initial_def api_ex_def medium_side_def
      large_side_def toggle_def toggleSides_def shownType_def selectSize_begin_def
      selectSize_resume_def selectedList_def currentName_def getFoodID_def sizedEntry_def
      sizePrice_def alc_isPremium_def entryLabel_def Let_def)

section \<open>The cart: alignment of lines and entries\<close>

text \<open>
  C1. The claim asks that after every add, remove and clear the transaction entries are
  the entries of the cart lines, index by index. The batch add of Appetizer.vue breaks
  it: with two appetizers selected and an empty cart, the cart receives two lines and
  the transaction cart one entry.
\<close>

theorem C1_appetizer_batch_misaligned:
  "length (cartItems (cart_run [AppetizerAdd api_ex appetizer_two] app_empty)) = 2
   \<and> length (transactionCart (cart_run [AppetizerAdd api_ex appetizer_two] app_empty)) = 1
   \<and> \<not> aligned (cart_run [AppetizerAdd api_ex appetizer_two] app_empty)"
  by (simp add: apt_addToCart_def apt_canAddToCart_def appetizer_two_def api_ex_def
      app_empty_def Let_def addToTransactionCart_def aligned_def)

text \<open>
  Every other operation keeps the two sequences aligned: the Plate add, the
  \<open>A la carte\<close> add, the appetizer add of a single appetizer, removal at any index and
  clearing.
\<close>

lemma splice1_map: "map f (splice1 i xs) = splice1 i (map f xs)"
  by (simp add: splice1_def Let_def take_map drop_map)

lemma aligned_remove: "aligned s \<Longrightarrow> aligned (removeFromCart i s)"
  by (simp add: aligned_def removeFromCart_def splice1_map)

lemma aligned_clear: "aligned (clearOrder s)"
  by (simp add: aligned_def clearOrder_def)

lemma aligned_pairs:
  "aligned s \<Longrightarrow>
   aligned (handleAll (concat (map (\<lambda>item. [AddToCart (One item),
      AddToTransactionCart (line_transactionEntry item)]) items)) s)"
proof (induction items arbitrary: s)
  case Nil
  then show ?case by simp
next
  case (Cons x xs)
  have "aligned (handle (AddToTransactionCart (line_transactionEntry x))
      (handle (AddToCart (One x)) s))"
    using Cons.prems by (simp add: aligned_def addToTransactionCart_def)
  from Cons.IH [OF this] show ?case by simp
qed

lemma aligned_plate: "aligned s \<Longrightarrow> aligned (cart_step (PlateAdd a p) s)"
  by (auto simp: plate_addToCart_def Let_def aligned_def addToTransactionCart_def
      split: option.splits list.splits)

lemma aligned_alc: "aligned s \<Longrightarrow> aligned (cart_step (ALaCarteAdd c) s)"
  by (simp add: alc_addToCart_def aligned_pairs flip: map_append)

lemma aligned_apt:
  assumes "aligned s" and "length (apt_selectedAppetizers p) \<le> 1"
  shows "aligned (cart_step (AppetizerAdd a p) s)"
proof (cases "apt_selectedAppetizers p")
  case Nil
  then show ?thesis using assms(1) by (simp add: apt_addToCart_def apt_canAddToCart_def)
next
  case (Cons x xs)
  with assms(2) have one: "apt_selectedAppetizers p = [x]" by simp
  show ?thesis
  proof (cases "api_itemid a ''Appetizer''")
    case None
    then show ?thesis using assms(1) one by (simp add: apt_addToCart_def apt_canAddToCart_def)
  next
    case base: (Some b)
    show ?thesis
    proof (cases "api_foodid a (getAppetizerName x)")
      case None
      then show ?thesis using assms(1) one base
        by (simp add: apt_addToCart_def apt_canAddToCart_def)
    next
      case (Some f)
      then show ?thesis using assms(1) one base
        by (simp add: apt_addToCart_def apt_canAddToCart_def Let_def aligned_def
            addToTransactionCart_def appetizerLine_def)
    qed
  qed
qed

lemma aligned_step: "aligned s \<Longrightarrow> batch_free c \<Longrightarrow> aligned (cart_step c s)"
  by (cases c) (simp_all add: aligned_plate aligned_alc aligned_apt aligned_remove aligned_clear
      del: cart_step.simps(1,2,3))

lemma aligned_run: "aligned s \<Longrightarrow> list_all batch_free cs \<Longrightarrow> aligned (cart_run cs s)"
  by (induction cs arbitrary: s) (simp_all add: aligned_step)

section \<open>completeOrder\<close>

text \<open>
  C2. The claim asks that the transaction posted carries the successor of the latest
  id read. \<open>completeOrder\<close> stores the id it read and posts it unchanged: when the read
  returns 41, the transaction posted carries 41, and none carries 42.
\<close>

theorem C2_posted_id_is_the_id_read:
  "env_latestID env_ex = Some 41
   \<and> transactionId (res_state (completeOrder env_ex app_paid)) = Some 41
   \<and> res_calls (completeOrder env_ex app_paid) ! 1 =
       PostTransaction 41 (Some 1) 13.3 ''2024-12-01T18:30:00.000Z'' ''Card''
   \<and> PostTransaction 42 (Some 1) 13.3 ''2024-12-01T18:30:00.000Z'' ''Card''
       \<notin> set (res_calls (completeOrder env_ex app_paid))"
  by (simp add: completeOrder_def env_ex_def app_paid_def app_unpaid_def updatePaymentMethod_def
      lineRequests_def foodids_def plate_ex_entry_def appetizer_ex_entry_def)

lemma completeOrder_posts_latest:
  assumes "truthy_str (selectedPayment s)" and "env_latestID env = Some n"
  shows "\<exists>p. selectedPayment s = Some p
    \<and> res_calls (completeOrder env s) ! 1 =
        PostTransaction n (employeeID s) (cartTotal s) (env_isoDate env) p"
proof -
  from assms(1) obtain p where "selectedPayment s = Some p"
    by (cases "selectedPayment s") simp_all
  with assms show ?thesis
    by (simp add: completeOrder_def Let_def split: prod.splits)
qed

text \<open>
  C3, as the claim states it, fails when the read of the latest id fails: the read comes
  before the test of the payment method, and with no payment method selected the error
  caught is then the failure of the request.
\<close>

theorem C3_failed_read_counterexample:
  "\<not> truthy_str (selectedPayment app_unpaid)
   \<and> res_caught (completeOrder env_down app_unpaid) = Some RequestFailed
   \<and> res_caught (completeOrder env_down app_unpaid) \<noteq> Some PaymentNotSelected"
  by (simp add: completeOrder_def env_down_def env_ex_def app_unpaid_def)

text \<open>
  C3, amended. With no payment method selected (\<open>null\<close> or the empty string),
  \<open>completeOrder\<close> fails: the \<open>try\<close>/\<open>catch\<close> catches the missing-payment-method error
  when the read of the latest id returned, and the failure of that read when it did
  not. In both cases no transaction, line item or inventory decrement is sent, the
  order is not completed, and the cart lines and the transaction entries are as before.
\<close>

theorem C3_missing_payment_method:
  assumes "\<not> truthy_str (selectedPayment s)"
  shows "cartItems (res_state (completeOrder env s)) = cartItems s
    \<and> transactionCart (res_state (completeOrder env s)) = transactionCart s
    \<and> filter persists (res_calls (completeOrder env s)) = []
    \<and> isOrderComplete (res_state (completeOrder env s)) = isOrderComplete s
    \<and> res_caught (completeOrder env s) \<noteq> None
    \<and> (env_latestID env \<noteq> None \<longrightarrow>
         res_caught (completeOrder env s) = Some PaymentNotSelected)
    \<and> (env_latestID env = None \<longrightarrow>
         res_caught (completeOrder env s) = Some RequestFailed)"
  using assms by (cases "env_latestID env") (simp_all add: completeOrder_def)

theorem C3_missing_payment_method_witness:
  "\<not> truthy_str (selectedPayment app_unpaid)
   \<and> env_latestID env_ex \<noteq> None
   \<and> res_caught (completeOrder env_ex app_unpaid) = Some PaymentNotSelected
   \<and> res_calls (completeOrder env_ex app_unpaid) = [GetLatestID]
   \<and> cartItems (res_state (completeOrder env_ex app_unpaid)) = [plate_ex_line, appetizer_ex_line]
   \<and> transactionCart (res_state (completeOrder env_ex app_unpaid)) =
       [plate_ex_entry, appetizer_ex_entry]
   \<and> env_latestID env_down = None
   \<and> res_caught (completeOrder env_down app_unpaid) = Some RequestFailed
   \<and> cartItems (res_state (completeOrder env_down app_unpaid)) = [plate_ex_line, appetizer_ex_line]"
proof -
  have h: "\<not> truthy_str (selectedPayment app_unpaid)"
    by (simp add: app_unpaid_def)
  have l: "env_latestID env_ex \<noteq> None" "env_latestID env_down = None"
    by (simp_all add: env_ex_def env_down_def)
  from C3_missing_payment_method [OF h, of env_ex] l
  have "res_caught (completeOrder env_ex app_unpaid) = Some PaymentNotSelected
      \<and> cartItems (res_state (completeOrder env_ex app_unpaid)) = cartItems app_unpaid
      \<and> transactionCart (res_state (completeOrder env_ex app_unpaid)) = transactionCart app_unpaid"
    by blast
  moreover from C3_missing_payment_method [OF h, of env_down] l
  have "res_caught (completeOrder env_down app_unpaid) = Some RequestFailed
      \<and> cartItems (res_state (completeOrder env_down app_unpaid)) = cartItems app_unpaid"
    by blast
  moreover have "res_calls (completeOrder env_ex app_unpaid) = [GetLatestID]"
    by (simp add: completeOrder_def env_ex_def app_unpaid_def)
  ultimately show ?thesis using h l by (simp add: app_unpaid_def)
qed

text \<open>
  C8. The claim asks for the decrements of every cart line. \<open>completeOrder\<close> walks the
  transaction entries, not the cart lines, and the cart the appetizer add builds from
  two appetizers holds two lines and one entry: with every request succeeding, the
  second line, whose entry names item 4 and food 20, gets neither its item-type
  decrement nor its food decrement.
\<close>

theorem C8_batch_line_without_decrements:
  "map (\<lambda>l. (te_itemid (line_transactionEntry l), te_food1 (line_transactionEntry l)))
       (cartItems app_two_appetizers) = [(Some 4, Some 16), (Some 4, Some 20)]
   \<and> truthy_str (selectedPayment app_two_appetizers)
   \<and> res_caught (completeOrder env_ex app_two_appetizers) = None
   \<and> filter isItemTypeDecrement (res_calls (completeOrder env_ex app_two_appetizers)) =
       [SubtractItemTypes (Some 4)]
   \<and> filter isFoodDecrement (res_calls (completeOrder env_ex app_two_appetizers)) =
       [SubtractFood (Some 16)]"
  by (simp add: app_two_appetizers_def updatePaymentMethod_def apt_addToCart_def
      apt_canAddToCart_def appetizer_two_def api_ex_def app_empty_def Let_def
      addToTransactionCart_def appetizerLine_def appetizerEntry_def completeOrder_def
      env_ex_def lineRequests_def foodids_def)

text \<open>
  For the entries the transaction cart does hold, the requests are as the claim says
  when the transaction and the line items are posted: one item-type decrement per
  entry, and per entry one food decrement for each of the slots 1 to 4 that is not zero.
\<close>

lemma lineCallbacks_calls:
  "\<forall>j < length es. env_postTransactionItems env (i + j) \<Longrightarrow>
   fst (snd (lineCallbacks env i es (s, calls, logged))) =
     calls @ concat (map (\<lambda>e. map SubtractFood (foodids e)) es)"
proof (induction es arbitrary: i s calls logged)
  case Nil
  then show ?case by simp
next
  case (Cons e es)
  from Cons.prems have ok: "env_postTransactionItems env i" by force
  from Cons.prems have "\<forall>j < length es. env_postTransactionItems env (Suc i + j)" by force
  from Cons.IH [OF this] ok show ?case by simp
qed

lemma filter_food_map: "filter isFoodDecrement (map SubtractFood fs) = map SubtractFood fs"
  by (induction fs) simp_all

lemma filter_itemtype_map: "filter isItemTypeDecrement (map SubtractFood fs) = []"
  by (induction fs) simp_all

lemma filter_lineRequests:
  "filter isItemTypeDecrement (concat (map (lineRequests n) es)) =
     map (\<lambda>e. SubtractItemTypes (te_itemid e)) es
   \<and> filter isFoodDecrement (concat (map (lineRequests n) es)) = []"
  by (induction es) (simp_all add: lineRequests_def)

lemma filter_concat_food:
  "filter isFoodDecrement (concat (map (\<lambda>e. map SubtractFood (foodids e)) es)) =
     concat (map (\<lambda>e. map SubtractFood (foodids e)) es)
   \<and> filter isItemTypeDecrement (concat (map (\<lambda>e. map SubtractFood (foodids e)) es)) = []"
  by (induction es) (simp_all add: filter_food_map filter_itemtype_map)

text \<open>The requests of a run in which every request succeeds, in the order sent.\<close>

lemma completeOrder_calls:
  assumes "truthy_str (selectedPayment s)" and "env_latestID env = Some n"
    and "env_postTransaction env"
    and "\<forall>i < length (transactionCart s). env_postTransactionItems env i"
  shows "res_calls (completeOrder env s) =
     [GetLatestID,
      PostTransaction n (employeeID s) (cartTotal s) (env_isoDate env) (the (selectedPayment s))]
     @ concat (map (lineRequests n) (transactionCart s))
     @ concat (map (\<lambda>e. map SubtractFood (foodids e)) (transactionCart s))"
proof -
  obtain p where p: "selectedPayment s = Some p"
    using assms(1) by (cases "selectedPayment s") simp_all
  obtain s2 later logged where
    l: "lineCallbacks env 0 (transactionCart s) (s\<lparr>transactionId := Some n\<rparr>, [], []) =
          (s2, later, logged)"
    by (metis prod_cases3)
  have "later =
      fst (snd (lineCallbacks env 0 (transactionCart s) (s\<lparr>transactionId := Some n\<rparr>, [], [])))"
    by (simp add: l)
  also have "\<dots> = [] @ concat (map (\<lambda>e. map SubtractFood (foodids e)) (transactionCart s))"
    by (rule lineCallbacks_calls) (use assms(4) in simp)
  finally have "later = concat (map (\<lambda>e. map SubtractFood (foodids e)) (transactionCart s))"
    by simp
  with l p assms show ?thesis
    by (simp add: completeOrder_def)
qed

lemma foodids_nonzero: "Some 0 \<notin> set (foodids e)"
  by (simp add: foodids_def)

text \<open>
  When a line's \<open>transactionitems\<close> POST fails, that line's food decrements are not
  sent; the item-type decrements do not depend on it.
\<close>

lemma lineCallbacks_calls_any:
  "fst (snd (lineCallbacks env i es (s, calls, logged))) =
     calls @ concat (map (\<lambda>(j, e). if env_postTransactionItems env j
                                   then map SubtractFood (foodids e) else [])
                         (zip [i ..< i + length es] es))"
proof (induction es arbitrary: i s calls logged)
  case Nil
  then show ?case by simp
next
  case (Cons e es)
  have u: "[i ..< i + length (e # es)] = i # [Suc i ..< Suc i + length es]"
    by (subst upt_rec) simp
  show ?case
    by (simp only: u) (simp add: Cons.IH)
qed

lemma completeOrder_itemtype_decrements:
  assumes "truthy_str (selectedPayment s)" and "env_latestID env = Some n"
    and "env_postTransaction env"
  shows "filter isItemTypeDecrement (res_calls (completeOrder env s)) =
       map (\<lambda>e. SubtractItemTypes (te_itemid e)) (transactionCart s)"
proof -
  obtain p where p: "selectedPayment s = Some p"
    using assms(1) by (cases "selectedPayment s") simp_all
  obtain s2 later logged where
    l: "lineCallbacks env 0 (transactionCart s) (s\<lparr>transactionId := Some n\<rparr>, [], []) =
          (s2, later, logged)"
    by (metis prod_cases3)
  have "later =
      fst (snd (lineCallbacks env 0 (transactionCart s) (s\<lparr>transactionId := Some n\<rparr>, [], [])))"
    by (simp add: l)
  then have "later = concat (map (\<lambda>(j, e). if env_postTransactionItems env j
                                   then map SubtractFood (foodids e) else [])
                         (zip [0 ..< length (transactionCart s)] (transactionCart s)))"
    by (simp add: lineCallbacks_calls_any)
  moreover have "filter isItemTypeDecrement (concat (map (\<lambda>(j, e). if env_postTransactionItems env j
                                   then map SubtractFood (foodids e) else []) xs)) = []" for xs
    by (induction xs) (auto simp: filter_itemtype_map)
  ultimately have "filter isItemTypeDecrement later = []" by simp
  with l p assms show ?thesis
    by (simp add: completeOrder_def filter_lineRequests)
qed

lemma decrements_per_entry:
  assumes "truthy_str (selectedPayment s)" and "env_latestID env = Some n"
    and "env_postTransaction env"
    and "\<forall>i < length (transactionCart s). env_postTransactionItems env i"
  shows "filter isItemTypeDecrement (res_calls (completeOrder env s)) =
       map (\<lambda>e. SubtractItemTypes (te_itemid e)) (transactionCart s)
    \<and> filter isFoodDecrement (res_calls (completeOrder env s)) =
       concat (map (\<lambda>e. map SubtractFood
         (filter (\<lambda>f. f \<noteq> Some 0) [te_food1 e, te_food2 e, te_food3 e, te_food4 e]))
         (transactionCart s))
    \<and> SubtractFood (Some 0) \<notin> set (res_calls (completeOrder env s))"
proof -
  note c = completeOrder_calls [OF assms]
  have 1: "filter isItemTypeDecrement (res_calls (completeOrder env s)) =
       map (\<lambda>e. SubtractItemTypes (te_itemid e)) (transactionCart s)"
    by (simp add: c filter_lineRequests filter_concat_food)
  have 2: "filter isFoodDecrement (res_calls (completeOrder env s)) =
       concat (map (\<lambda>e. map SubtractFood (foodids e)) (transactionCart s))"
    by (simp add: c filter_lineRequests filter_concat_food)
  have "SubtractFood (Some 0) \<notin> set (filter isFoodDecrement (res_calls (completeOrder env s)))"
    unfolding 2 using foodids_nonzero by auto
  then have 3: "SubtractFood (Some 0) \<notin> set (res_calls (completeOrder env s))" by simp
  from 1 2 3 show ?thesis by (simp add: foodids_def)
qed

text \<open>
  A Bigger Plate line with four foods and an appetizer line, the second line item
  refused: four food decrements for the first line, none for the second, and the
  item-type decrement of both.
\<close>

lemma refused_line_item_decrements:
  "filter isItemTypeDecrement (res_calls (completeOrder env_refused app_bigger)) =
     [SubtractItemTypes (Some 3), SubtractItemTypes (Some 4)]
   \<and> filter isFoodDecrement (res_calls (completeOrder env_refused app_bigger)) =
     [SubtractFood (Some 9), SubtractFood (Some 14), SubtractFood (Some 19),
      SubtractFood (Some 12)]
   \<and> res_logged (completeOrder env_refused app_bigger) =
     [''Error adding to transactionitems table'']"
  by (simp add: app_bigger_def app_paid_def app_unpaid_def updatePaymentMethod_def
      completeOrder_def env_refused_def env_ex_def lineRequests_def foodids_def
      bigger_plate_entry_def appetizer_ex_entry_def)

section \<open>The ready time\<close>

lemma randomMinutes_range:
  assumes "0 \<le> r" and "r \<le> 1 - 1 / 2 ^ 53" and "\<bar>d\<bar> \<le> 1 / 2 ^ 53"
  shows "5 \<le> randomMinutes r d \<and> randomMinutes r d \<le> 10"
proof -
  from assms(3) have d1: "0 \<le> 1 + d" and d2: "1 + d \<le> 1 + 1 / 2 ^ 53"
    by (simp_all add: abs_le_iff)
  have lo: "0 \<le> r * 6 * (1 + d)"
    using assms(1) d1 by simp
  have "r * 6 \<le> (1 - 1 / 2 ^ 53) * 6"
    using assms(2) by simp
  moreover have "0 \<le> r * 6" using assms(1) by simp
  ultimately have "r * 6 * (1 + d) \<le> (1 - 1 / 2 ^ 53) * 6 * (1 + 1 / 2 ^ 53)"
    using d1 d2 by (intro mult_mono) simp_all
  also have "\<dots> < 6" by simp
  finally have hi: "r * 6 * (1 + d) < 6" .
  from lo have "0 \<le> \<lfloor>r * 6 * (1 + d)\<rfloor>" by simp
  moreover from hi have "\<lfloor>r * 6 * (1 + d)\<rfloor> < 6" by (simp add: floor_less_iff)
  ultimately show ?thesis by (simp add: randomMinutes_def)
qed

text \<open>
  In exact arithmetic each of the six offsets is drawn on one sixth of the unit
  interval: the offset is \<open>5 + k\<close> exactly when the draw lies in \<open>[k/6, (k+1)/6)\<close>.
\<close>

lemma randomMinutes_sixths:
  "randomMinutes r 0 = 5 + k \<longleftrightarrow> of_int k / 6 \<le> r \<and> r < (of_int k + 1) / 6"
  by (auto simp: randomMinutes_def floor_eq_iff field_simps)

text \<open>
  With the rounding of the product, the draws well inside the \<open>k\<close>-th sixth still give
  the offset \<open>5 + k\<close>.
\<close>

lemma randomMinutes_band:
  assumes k: "0 \<le> k" and d: "\<bar>d\<bar> \<le> 1 / 2 ^ 53"
    and lo: "of_int k / 6 * (1 + 1 / 2 ^ 52) \<le> r"
    and hi: "r \<le> (of_int k + 1) / 6 * (1 - 1 / 2 ^ 52)"
  shows "randomMinutes r d = 5 + k"
proof -
  from d have d0: "0 \<le> 1 + d" and d1: "1 - 1 / 2 ^ 53 \<le> 1 + d"
    and d2: "1 + d \<le> 1 + 1 / 2 ^ 53"
    by (simp_all add: abs_le_iff)
  from k have k0: "(0::real) \<le> of_int k" by simp
  from lo have lo6: "of_int k * (1 + 1 / 2 ^ 52) \<le> r * 6" by simp
  from hi have hi6: "r * 6 \<le> (of_int k + 1) * (1 - 1 / 2 ^ 52)" by simp
  have "(0::real) \<le> of_int k * (1 + 1 / 2 ^ 52)" using k0 by simp
  with lo6 have r0: "0 \<le> r * 6" by linarith
  have "of_int k * (1::real) \<le> of_int k * ((1 + 1 / 2 ^ 52) * (1 - 1 / 2 ^ 53))"
    using k0 by (intro mult_left_mono) simp_all
  also have "\<dots> = (of_int k * (1 + 1 / 2 ^ 52)) * (1 - 1 / 2 ^ 53)"
    by (simp only: mult.assoc)
  also have "\<dots> \<le> (r * 6) * (1 + d)"
    by (rule mult_mono [OF lo6 d1 r0]) simp
  finally have L: "of_int k \<le> r * 6 * (1 + d)" by simp
  have "(r * 6) * (1 + d) \<le> ((of_int k + 1) * (1 - 1 / 2 ^ 52)) * (1 + 1 / 2 ^ 53)"
    by (rule mult_mono [OF hi6 d2 _ d0]) (use k0 in simp)
  also have "\<dots> = (of_int k + 1) * ((1 - 1 / 2 ^ 52) * (1 + 1 / 2 ^ 53))"
    by (simp only: mult.assoc)
  also have "\<dots> < (of_int k + 1) * (1::real)"
    using k0 by (intro mult_strict_left_mono) simp_all
  finally have U: "r * 6 * (1 + d) < of_int k + 1" by simp
  from L U have "\<lfloor>r * 6 * (1 + d)\<rfloor> = k" by (simp add: floor_eq_iff)
  then show ?thesis by (simp add: randomMinutes_def)
qed

text \<open>Conversely the offset \<open>5 + k\<close> is only given by draws near the \<open>k\<close>-th sixth.\<close>

lemma randomMinutes_band_only:
  assumes r: "0 \<le> r" and d: "\<bar>d\<bar> \<le> 1 / 2 ^ 53"
    and m: "randomMinutes r d = 5 + k"
  shows "of_int k / 6 * (1 - 1 / 2 ^ 52) \<le> r \<and> r < (of_int k + 1) / 6 * (1 + 1 / 2 ^ 52)"
proof -
  from d have d0: "0 \<le> 1 + d" and d1: "1 - 1 / 2 ^ 53 \<le> 1 + d"
    and d2: "1 + d \<le> 1 + 1 / 2 ^ 53"
    by (simp_all add: abs_le_iff)
  from r have r6: "0 \<le> r * 6" by simp
  from m have f: "\<lfloor>r * 6 * (1 + d)\<rfloor> = k" by (simp add: randomMinutes_def)
  then have L: "of_int k \<le> r * 6 * (1 + d)" and U: "r * 6 * (1 + d) < of_int k + 1"
    by (simp_all add: floor_eq_iff)
  have "0 \<le> r * 6 * (1 + d)" using r6 d0 by simp
  then have "0 \<le> \<lfloor>r * 6 * (1 + d)\<rfloor>" by simp
  with f have k0: "(0::real) \<le> of_int k" by simp
  have "(r * 6) * (1 + d) \<le> (r * 6) * (1 + 1 / 2 ^ 53)"
    by (rule mult_left_mono [OF d2 r6])
  with L have "of_int k \<le> (r * 6) * (1 + 1 / 2 ^ 53)" by linarith
  then have "of_int k * (1 - 1 / 2 ^ 52) \<le> ((r * 6) * (1 + 1 / 2 ^ 53)) * (1 - 1 / 2 ^ 52)"
    by (rule mult_right_mono) simp
  also have "\<dots> = (r * 6) * ((1 + 1 / 2 ^ 53) * (1 - 1 / 2 ^ 52))"
    by (simp only: mult.assoc)
  also have "\<dots> \<le> (r * 6) * 1"
    using r6 by (intro mult_left_mono) simp_all
  finally have A: "of_int k / 6 * (1 - 1 / 2 ^ 52) \<le> r" by simp
  have "(r * 6) * 1 \<le> (r * 6) * ((1 - 1 / 2 ^ 53) * (1 + 1 / 2 ^ 52))"
    using r6 by (intro mult_left_mono) simp_all
  also have "\<dots> = ((r * 6) * (1 - 1 / 2 ^ 53)) * (1 + 1 / 2 ^ 52)"
    by (simp only: mult.assoc)
  also have "\<dots> \<le> ((r * 6) * (1 + d)) * (1 + 1 / 2 ^ 52)"
    by (rule mult_right_mono [OF mult_left_mono [OF d1 r6]]) simp
  also have "\<dots> < (of_int k + 1) * (1 + 1 / 2 ^ 52)"
    by (rule mult_strict_right_mono [OF U]) simp
  finally have B: "r < (of_int k + 1) / 6 * (1 + 1 / 2 ^ 52)" by simp
  from A B show ?thesis ..
qed

text \<open>Six draws, one for each offset, whatever the rounding of the product.\<close>

lemma randomMinutes_each:
  assumes d: "\<bar>d\<bar> \<le> 1 / 2 ^ 53" and k: "k \<in> {0..5}"
  shows "randomMinutes ((11 * of_int k + 5) / 64) d = 5 + k"
proof -
  from k have "k = 0 \<or> k = 1 \<or> k = 2 \<or> k = 3 \<or> k = 4 \<or> k = 5" by auto
  then have "of_int k / 6 * (1 + 1 / 2 ^ 52) \<le> (11 * of_int k + 5) / (64::real)
      \<and> (11 * of_int k + 5) / (64::real) \<le> (of_int k + 1) / 6 * (1 - 1 / 2 ^ 52)"
    by (elim disjE) simp_all
  with randomMinutes_band [OF _ d, of k "(11 * of_int k + 5) / 64"] k
  show ?thesis by simp
qed

text \<open>
  C9. For every value the random draw can take and every rounding of the product, the
  ready time is the current time moved on by a whole number of minutes that is at
  least 5 and at most 10, and the time shown is the hour and minute of that moment.
  The offset follows the draw: a draw inside the \<open>k\<close>-th sixth of the unit interval
  gives \<open>5 + k\<close>, the offset \<open>5 + k\<close> comes only from draws of that sixth (both up to the
  rounding, a relative \<open>2\<^sup>-\<^sup>5\<^sup>2\<close>), so that the six offsets have bands of the same
  width, and each of the six offsets is the result of some draw.
\<close>

theorem C9_ready_time_offset:
  assumes "0 \<le> r" and "r \<le> 1 - 1 / 2 ^ 53" and "\<bar>d\<bar> \<le> 1 / 2 ^ 53"
  shows "5 \<le> randomMinutes r d \<and> randomMinutes r d \<le> 10
    \<and> readyDate now r d = now + 60000 * randomMinutes r d
    \<and> calculateReadyTime now r d = hourMinute (now + 60000 * randomMinutes r d)
    \<and> (\<forall>k\<in>{0..5}. of_int k / 6 * (1 + 1 / 2 ^ 52) \<le> r
          \<and> r \<le> (of_int k + 1) / 6 * (1 - 1 / 2 ^ 52) \<longrightarrow> randomMinutes r d = 5 + k)
    \<and> (\<forall>k. randomMinutes r d = 5 + k \<longrightarrow>
          of_int k / 6 * (1 - 1 / 2 ^ 52) \<le> r \<and> r < (of_int k + 1) / 6 * (1 + 1 / 2 ^ 52))
    \<and> (\<forall>k\<in>{0..5}. randomMinutes ((11 * of_int k + 5) / 64) d = 5 + k)"
proof -
  have 1: "5 \<le> randomMinutes r d \<and> randomMinutes r d \<le> 10"
    by (rule randomMinutes_range [OF assms])
  have 2: "readyDate now r d = now + 60000 * randomMinutes r d"
    by (simp add: readyDate_def addMinutes_def)
  have 3: "calculateReadyTime now r d = hourMinute (now + 60000 * randomMinutes r d)"
    by (simp add: calculateReadyTime_def readyDate_def addMinutes_def)
  have 4: "\<forall>k\<in>{0..5}. of_int k / 6 * (1 + 1 / 2 ^ 52) \<le> r
          \<and> r \<le> (of_int k + 1) / 6 * (1 - 1 / 2 ^ 52) \<longrightarrow> randomMinutes r d = 5 + k"
    using randomMinutes_band [OF _ assms(3)] by simp
  have 5: "\<forall>k. randomMinutes r d = 5 + k \<longrightarrow>
          of_int k / 6 * (1 - 1 / 2 ^ 52) \<le> r \<and> r < (of_int k + 1) / 6 * (1 + 1 / 2 ^ 52)"
    using randomMinutes_band_only [OF assms(1) assms(3)] by blast
  have 6: "\<forall>k\<in>{0..5}. randomMinutes ((11 * of_int k + 5) / 64) d = 5 + k"
    using randomMinutes_each [OF assms(3)] by blast
  from 1 2 3 4 5 6 show ?thesis by blast
qed

theorem C9_ready_time_offset_witness:
  "(0::real) \<le> 5 / 8 \<and> (5 / 8 :: real) \<le> 1 - 1 / 2 ^ 53
   \<and> \<bar>1 / 2 ^ 53 :: real\<bar> \<le> 1 / 2 ^ 53
   \<and> randomMinutes (5 / 8) (1 / 2 ^ 53) = 8
   \<and> readyDate 66600000 (5 / 8) (1 / 2 ^ 53) = 67080000
   \<and> calculateReadyTime 66600000 (5 / 8) (1 / 2 ^ 53) = (18, 38)
   \<and> randomMinutes (5 / 64) (1 / 2 ^ 53) = 5
   \<and> randomMinutes (16 / 64) (1 / 2 ^ 53) = 6
   \<and> randomMinutes (27 / 64) (1 / 2 ^ 53) = 7
   \<and> randomMinutes (38 / 64) (1 / 2 ^ 53) = 8
   \<and> randomMinutes (49 / 64) (1 / 2 ^ 53) = 9
   \<and> randomMinutes (60 / 64) (1 / 2 ^ 53) = 10"
proof -
  have h: "(0::real) \<le> 5 / 8" "(5 / 8 :: real) \<le> 1 - 1 / 2 ^ 53"
    "\<bar>1 / 2 ^ 53 :: real\<bar> \<le> 1 / 2 ^ 53"
    by simp_all
  note t = C9_ready_time_offset [OF h, of 66600000]
  from t have band: "\<forall>k\<in>{0..5}. of_int k / 6 * (1 + 1 / 2 ^ 52) \<le> (5 / 8 :: real)
          \<and> (5 / 8 :: real) \<le> (of_int k + 1) / 6 * (1 - 1 / 2 ^ 52)
          \<longrightarrow> randomMinutes (5 / 8) (1 / 2 ^ 53) = 5 + k"
    by blast
  have "(3::int) \<in> {0..5}" by simp
  with band have "of_int 3 / 6 * (1 + 1 / 2 ^ 52) \<le> (5 / 8 :: real)
          \<and> (5 / 8 :: real) \<le> (of_int 3 + 1) / 6 * (1 - 1 / 2 ^ 52)
          \<longrightarrow> randomMinutes (5 / 8) (1 / 2 ^ 53) = 5 + 3"
    by (rule bspec)
  then have m: "randomMinutes (5 / 8) (1 / 2 ^ 53) = 8" by simp
  from t have "readyDate 66600000 (5 / 8) (1 / 2 ^ 53)
      = 66600000 + 60000 * randomMinutes (5 / 8) (1 / 2 ^ 53)"
    and "calculateReadyTime 66600000 (5 / 8) (1 / 2 ^ 53)
      = hourMinute (66600000 + 60000 * randomMinutes (5 / 8) (1 / 2 ^ 53))"
    by blast+
  with m have rd: "readyDate 66600000 (5 / 8) (1 / 2 ^ 53) = 67080000"
    and ct: "calculateReadyTime 66600000 (5 / 8) (1 / 2 ^ 53) = (18, 38)"
    by (simp_all add: hourMinute_def)
  from t have each: "\<forall>k\<in>{0..5}. randomMinutes ((11 * of_int k + 5) / 64) (1 / 2 ^ 53) = 5 + k"
    by blast
  have e0: "randomMinutes (5 / 64) (1 / 2 ^ 53) = 5"
    using bspec [OF each, of 0] by simp
  have e1: "randomMinutes (16 / 64) (1 / 2 ^ 53) = 6"
    using bspec [OF each, of 1] by simp
  have e2: "randomMinutes (27 / 64) (1 / 2 ^ 53) = 7"
    using bspec [OF each, of 2] by simp
  have e3: "randomMinutes (38 / 64) (1 / 2 ^ 53) = 8"
    using bspec [OF each, of 3] by simp
  have e4: "randomMinutes (49 / 64) (1 / 2 ^ 53) = 9"
    using bspec [OF each, of 4] by simp
  have e5: "randomMinutes (60 / 64) (1 / 2 ^ 53) = 10"
    using bspec [OF each, of 5] by simp
  from h m rd ct e0 e1 e2 e3 e4 e5 show ?thesis by blast
qed

end
